theory Spec2Isabelle
  imports Complex_Main
begin

section \<open>Python strings\<close>

text \<open>
  A Python \<open>str\<close> is modelled as a \<open>string\<close> whose characters are code points below 256,
  so that the non-breaking space \<open>\xa0\<close> of \<open>main\<close> is the single character \<open>CHR 0xA0\<close>.
\<close>

definition is_space :: "char \<Rightarrow> bool" where
  \<comment> \<open>\<open>str.isspace\<close> on the code points below 256\<close>
  "is_space c = (c \<in> set [CHR 0x09, CHR 0x0A, CHR 0x0B, CHR 0x0C, CHR 0x0D, CHR 0x1C, CHR 0x1D,
                          CHR 0x1E, CHR 0x1F, CHR 0x20, CHR 0x85, CHR 0xA0])"

definition py_strip :: "string \<Rightarrow> string" where
  \<comment> \<open>\<open>s.strip()\<close>\<close>
  "py_strip s = rev (dropWhile is_space (rev (dropWhile is_space s)))"

definition lower_char :: "char \<Rightarrow> char" where
  "lower_char c =
     (let n = (of_char c :: nat)
      in if (65 \<le> n \<and> n \<le> 90) \<or> (192 \<le> n \<and> n \<le> 222 \<and> n \<noteq> 215) then char_of (n + 32) else c)"

definition py_lower :: "string \<Rightarrow> string" where
  \<comment> \<open>\<open>s.lower()\<close>\<close>
  "py_lower s = map lower_char s"

definition startswith :: "string \<Rightarrow> string \<Rightarrow> bool" where
  \<comment> \<open>\<open>s.startswith(pat)\<close>\<close>
  "startswith pat s = (take (length pat) s = pat)"

fun py_in :: "string \<Rightarrow> string \<Rightarrow> bool" where
  \<comment> \<open>\<open>pat in s\<close>\<close>
  "py_in pat [] = (pat = [])"
| "py_in pat (c # cs) = (startswith pat (c # cs) \<or> py_in pat cs)"

function (sequential) py_remove :: "string \<Rightarrow> string \<Rightarrow> string" where
  \<comment> \<open>\<open>s.replace(pat, "")\<close>: every occurrence, left to right, without overlap\<close>
  "py_remove pat [] = []"
| "py_remove pat (c # cs) =
     (if pat \<noteq> [] \<and> startswith pat (c # cs) then py_remove pat (drop (length pat) (c # cs))
      else c # py_remove pat cs)"
  by pat_completeness auto
termination
  by (relation "measure (\<lambda>(pat, s). length s)") auto

fun py_split :: "char \<Rightarrow> string \<Rightarrow> string list" where
  \<comment> \<open>\<open>s.split(sep)\<close> for a one-character separator\<close>
  "py_split sep [] = [[]]"
| "py_split sep (c # cs) =
     (case py_split sep cs of
        [] \<Rightarrow> [[c]]
      | w # ws \<Rightarrow> if c = sep then [] # w # ws else (c # w) # ws)"

definition truthy_str :: "string option \<Rightarrow> bool" where
  \<comment> \<open>truth value of a \<open>str | None\<close>: neither \<open>None\<close> nor the empty string\<close>
  "truthy_str v = (case v of None \<Rightarrow> False | Some s \<Rightarrow> s \<noteq> [])"

section \<open>Values, exceptions and the outside world\<close>

datatype json =
    JNull
  | JBool bool
  | JInt int
  | JNum rat
  | JStr string
  | JArr "json list"
  | JObj "(string \<times> json) list"

fun truthy :: "json \<Rightarrow> bool" where
  \<comment> \<open>Python's truth value of a decoded JSON value; \<open>JNull\<close> is \<open>None\<close>\<close>
  "truthy JNull = False"
| "truthy (JBool b) = b"
| "truthy (JInt i) = (i \<noteq> 0)"
| "truthy (JNum r) = (r \<noteq> 0)"
| "truthy (JStr s) = (s \<noteq> [])"
| "truthy (JArr xs) = (xs \<noteq> [])"
| "truthy (JObj kvs) = (kvs \<noteq> [])"

datatype exn_kind = ValueError | AttributeError | ImportError | IndexError | OtherError

text \<open>
  An exception of class \<open>Exception\<close>: its kind and the text \<open>str(e)\<close> gives.
  What \<open>except Exception\<close> lets through (a keyboard interrupt, a cancellation) is not
  modelled; the \<open>sys.exit(1)\<close> of line 618 is an outcome of \<open>main\<close>.
\<close>

datatype exn = Exn (kind: exn_kind) (message: string)

fun py_get :: "json \<Rightarrow> string \<Rightarrow> exn + json" where
  \<comment> \<open>\<open>result.get(key)\<close>: only a dict has the method\<close>
  "py_get (JObj kvs) k = Inr (case map_of kvs k of None \<Rightarrow> JNull | Some v \<Rightarrow> v)"
| "py_get j k = Inl (Exn AttributeError ''object has no attribute get'')"

datatype llm =
    ChatAzureOpenAI string "string option" "string option" string string rat
  | ChatOpenAI string "string option" rat
  | ChatGoogle string "string option" rat

datatype session = BrowserSession (cdp_url: string) (is_local: bool)

record usage_entry =
  model :: string
  prompt_tokens :: int
  completion_tokens :: int

text \<open>
  What the script reads of an \<open>Agent\<close>: \<open>token_cost_service\<close> is \<open>None\<close> when the attribute
  is falsy and otherwise holds the service's \<open>usage_history\<close> at construction;
  \<open>browser\<close> says whether \<open>agent.browser\<close> exists and is truthy.
\<close>

record agent =
  token_cost_service :: "usage_entry list option"
  browser :: bool

text \<open>
  What the script reads of the value \<open>agent.run()\<close> returns: \<open>len(result.all_results)\<close>
  when the attribute exists, and \<open>str(result)\<close>.
\<close>

record history =
  all_results :: "nat option"
  as_str :: string

record http_response =
  status :: int
  json_body :: "exn + json"
  text_body :: "exn + string"

text \<open>
  Every call that leaves the script is recorded as an event, in order; \<open>CreateAgentCall\<close>
  records an entry into \<open>create_agent\<close> with its hint, and \<open>PrintJson\<close> a
  \<open>print(json.dumps(...))\<close> of a result document. Diagnostic prints are not modelled.
\<close>

datatype event =
    CreateAgentCall "string option"
  | BrowserSessionNew string bool
  | AgentNew string "llm option" int "session option"
  | ImportHighlights
  | TokenCostInitialize
  | AgentRun
  | BrowserClose
  | HttpPost string json
  | HttpGet string
  | PrintJson json

type_synonym trace = "event list"

text \<open>
  The collaborators (environment variables, Python's \<open>int\<close> and \<open>str\<close>, the browser-use
  library, the HTTP client) are parameters. Each outcome is a function of the trace up to
  and including the call, so an outcome may differ from one call to the next.
  \<open>x_run\<close> also gives the usage records the run appends to \<open>usage_history\<close>.
\<close>

record externals =
  x_getenv :: "string \<Rightarrow> string option"
  x_int :: "string \<Rightarrow> exn + int"
  x_str :: "json \<Rightarrow> string"
  x_BrowserSession :: "trace \<Rightarrow> exn option"
  x_Agent :: "trace \<Rightarrow> exn + agent"
  x_import_highlights :: "trace \<Rightarrow> exn option"
  x_initialize :: "trace \<Rightarrow> exn option"
  x_run :: "trace \<Rightarrow> (exn + history) \<times> usage_entry list"
  x_close :: "trace \<Rightarrow> exn option"
  x_http :: "trace \<Rightarrow> exn + http_response"

definition getenv_or :: "externals \<Rightarrow> string \<Rightarrow> string \<Rightarrow> string" where
  \<comment> \<open>\<open>os.getenv(key, default)\<close>\<close>
  "getenv_or ext k d = (case x_getenv ext k of None \<Rightarrow> d | Some v \<Rightarrow> v)"

section \<open>UnifiedBrowserUseAgent\<close>

record self =
  azure_api_key :: "string option"
  azure_endpoint :: "string option"
  azure_deployment :: string
  api_version :: string
  openai_api_key :: "string option"
  google_api_key :: "string option"
  llm_provider :: string
  headless :: bool
  browser_port :: int
  llm :: "llm option"
  disable_highlighting :: bool
  agent :: "agent option"

definition new_object :: self where
  \<comment> \<open>the object before \<open>__init__\<close> has set its attributes\<close>
  "new_object =
     \<lparr>azure_api_key = None, azure_endpoint = None, azure_deployment = [], api_version = [],
      openai_api_key = None, google_api_key = None, llm_provider = [], headless = False,
      browser_port = 0, llm = None, disable_highlighting = False, agent = None\<rparr>"

definition load_environment :: "externals \<Rightarrow> self \<Rightarrow> exn + self" where
  "load_environment ext s =
     (case x_int ext (getenv_or ext ''BROWSER_PORT'' ''9222'') of
        Inl e \<Rightarrow> Inl e
      | Inr port \<Rightarrow>
          Inr (s\<lparr>azure_api_key := x_getenv ext ''AZURE_OPENAI_API_KEY'',
                 azure_endpoint := x_getenv ext ''AZURE_OPENAI_ENDPOINT'',
                 azure_deployment := getenv_or ext ''AZURE_OPENAI_DEPLOYMENT_NAME'' ''gpt-4.1'',
                 api_version := getenv_or ext ''AZURE_OPENAI_API_VERSION'' ''2024-08-01-preview'',
                 openai_api_key := x_getenv ext ''OPENAI_API_KEY'',
                 google_api_key := x_getenv ext ''GOOGLE_API_KEY'',
                 llm_provider := py_lower (getenv_or ext ''LLM_PROVIDER'' ''azure''),
                 headless := (py_lower (getenv_or ext ''BROWSER_HEADLESS'' ''true'') = ''true''),
                 browser_port := port\<rparr>))"

definition azure_configured :: "self \<Rightarrow> bool" where
  \<comment> \<open>\<open>all([self.azure_api_key, self.azure_endpoint, self.azure_deployment])\<close>\<close>
  "azure_configured s =
     (truthy_str (azure_api_key s) \<and> truthy_str (azure_endpoint s) \<and> azure_deployment s \<noteq> [])"

definition azure_llm :: "self \<Rightarrow> llm" where
  "azure_llm s =
     ChatAzureOpenAI (azure_deployment s) (azure_api_key s) (azure_endpoint s)
       (azure_deployment s) (api_version s) (7 / 10)"

definition no_llm_error :: exn where
  "no_llm_error =
     Exn ValueError
       ''No valid LLM configuration found. Please set up Azure OpenAI, OpenAI, or Google AI credentials.''"

definition setup_llm :: "self \<Rightarrow> exn + self" where
  "setup_llm s =
     (if llm s \<noteq> None then Inr s
      else if llm_provider s = ''azure'' \<and> azure_configured s then Inr (s\<lparr>llm := Some (azure_llm s)\<rparr>)
      else if llm_provider s = ''openai'' \<and> truthy_str (openai_api_key s)
        then Inr (s\<lparr>llm := Some (ChatOpenAI ''gpt-4o'' (openai_api_key s) (7 / 10))\<rparr>)
      else if llm_provider s = ''google'' \<and> truthy_str (google_api_key s)
        then Inr (s\<lparr>llm := Some (ChatGoogle ''gemini-2.0-flash'' (google_api_key s) (7 / 10))\<rparr>)
      else if azure_configured s then Inr (s\<lparr>llm := Some (azure_llm s)\<rparr>)
      else Inl no_llm_error)"

definition init :: "externals \<Rightarrow> bool \<Rightarrow> bool \<Rightarrow> exn + self" where
  \<comment> \<open>\<open>UnifiedBrowserUseAgent.__init__(defer_llm, disable_highlighting)\<close>\<close>
  "init ext defer_llm dh =
     (case load_environment ext new_object of
        Inl e \<Rightarrow> Inl e
      | Inr s0 \<Rightarrow>
          (let s1 = s0\<lparr>llm := None, disable_highlighting := dh\<rparr>
           in case (if \<not> defer_llm then setup_llm s1 else Inr s1) of
                Inl e \<Rightarrow> Inl e
              | Inr s2 \<Rightarrow> Inr (s2\<lparr>agent := None\<rparr>)))"

subsection \<open>create_agent\<close>

definition remote_endpoint :: "string option \<Rightarrow> string option" where
  \<comment> \<open>\<open>browser_context_id and browser_context_id.startswith('ws://')\<close>\<close>
  "remote_endpoint hint =
     (case hint of
        None \<Rightarrow> None
      | Some url \<Rightarrow> if url \<noteq> [] \<and> startswith ''ws://'' url then Some url else None)"

definition connect :: "externals \<Rightarrow> string option \<Rightarrow> trace \<Rightarrow> (exn + session option) \<times> trace" where
  \<comment> \<open>lines 136 to 152: a \<open>BrowserSession\<close> on the endpoint, or \<open>None\<close> for a new browser\<close>
  "connect ext hint tr =
     (case remote_endpoint hint of
        None \<Rightarrow> (Inr None, tr)
      | Some url \<Rightarrow>
          (let tr1 = tr @ [BrowserSessionNew url False]
           in case x_BrowserSession ext tr1 of
                Some e \<Rightarrow> (Inl e, tr1)
              | None \<Rightarrow> (Inr (Some (BrowserSession url False)), tr1)))"

definition patch_highlighting :: "externals \<Rightarrow> self \<Rightarrow> trace \<Rightarrow> exn option \<times> trace" where
  \<comment> \<open>lines 166 to 179: the import is tried only when highlighting is disabled, and only
      an \<open>ImportError\<close> is caught\<close>
  "patch_highlighting ext s tr =
     (if disable_highlighting s then
        (let tr1 = tr @ [ImportHighlights]
         in case x_import_highlights ext tr1 of
              None \<Rightarrow> (None, tr1)
            | Some e \<Rightarrow> if kind e = ImportError then (None, tr1) else (Some e, tr1))
      else (None, tr))"

definition init_cost_tracking :: "externals \<Rightarrow> agent \<Rightarrow> trace \<Rightarrow> exn option \<times> trace" where
  \<comment> \<open>lines 182 to 216: \<open>await self.agent.token_cost_service.initialize()\<close>; the logger
      set-up and the wrapped \<open>_log_usage\<close> only print\<close>
  "init_cost_tracking ext a tr =
     (case token_cost_service a of
        None \<Rightarrow> (None, tr)
      | Some h \<Rightarrow> (let tr1 = tr @ [TokenCostInitialize] in (x_initialize ext tr1, tr1)))"

definition create_agent_body ::
  "externals \<Rightarrow> self \<Rightarrow> string \<Rightarrow> string option \<Rightarrow> int \<Rightarrow> trace \<Rightarrow> (exn + agent) \<times> self \<times> trace" where
  \<comment> \<open>the \<open>try\<close> block of \<open>create_agent\<close>\<close>
  "create_agent_body ext s task_text hint max_steps tr =
     (case connect ext hint tr of
        (Inl e, tr1) \<Rightarrow> (Inl e, s, tr1)
      | (Inr bs, tr1) \<Rightarrow>
          (let tr2 = tr1 @ [AgentNew task_text (llm s) max_steps bs]
           in case x_Agent ext tr2 of
                Inl e \<Rightarrow> (Inl e, s, tr2)
              | Inr a \<Rightarrow>
                  (let s1 = s\<lparr>agent := Some a\<rparr>
                   in case patch_highlighting ext s1 tr2 of
                        (Some e, tr3) \<Rightarrow> (Inl e, s1, tr3)
                      | (None, tr3) \<Rightarrow>
                          (case init_cost_tracking ext a tr3 of
                             (Some e, tr4) \<Rightarrow> (Inl e, s1, tr4)
                           | (None, tr4) \<Rightarrow> (Inr a, s1, tr4)))))"

function create_agent ::
  "externals \<Rightarrow> self \<Rightarrow> string \<Rightarrow> string option \<Rightarrow> int \<Rightarrow> trace \<Rightarrow> (exn + agent) \<times> self \<times> trace" where
  "create_agent ext s task_text hint max_steps tr =
     (case create_agent_body ext s task_text hint max_steps (tr @ [CreateAgentCall hint]) of
        (Inr a, s1, tr1) \<Rightarrow> (Inr a, s1, tr1)
      | (Inl e, s1, tr1) \<Rightarrow>
          if truthy_str hint then create_agent ext s1 task_text (Some []) max_steps tr1
          else (Inl e, s1, tr1))"
  by pat_completeness auto
termination
  by (relation "measure (\<lambda>(ext, s, task_text, hint, max_steps, tr). if truthy_str hint then 1 else 0)")
     (auto simp: truthy_str_def)

declare create_agent.simps [simp del]

subsection \<open>execute_task\<close>

text \<open>
  The two sums of lines 266 to 269. \<open>total_cost\<close> is a Python float; the model adds the
  per-record costs as exact rationals.
\<close>

fun tally :: "usage_entry list \<Rightarrow> int \<times> rat \<Rightarrow> int \<times> rat" where
  "tally [] acc = acc"
| "tally (entry # rest) (total_tokens, total_cost) =
     tally rest
       (total_tokens + (prompt_tokens entry + completion_tokens entry),
        total_cost + (of_int (prompt_tokens entry) * (1 / 10000)
                      + of_int (completion_tokens entry) * (3 / 10000)))"

definition initial_usage :: "agent \<Rightarrow> nat option" where
  \<comment> \<open>lines 250 to 252\<close>
  "initial_usage a =
     (case token_cost_service a of
        None \<Rightarrow> None
      | Some h \<Rightarrow> if h \<noteq> [] then Some (length h) else None)"

definition usage_totals :: "agent \<Rightarrow> nat option \<Rightarrow> usage_entry list \<Rightarrow> int \<times> rat" where
  \<comment> \<open>lines 258 to 271; \<open>appended\<close> are the records the run added to \<open>usage_history\<close>\<close>
  "usage_totals a initial appended =
     (case token_cost_service a of
        None \<Rightarrow> (0, 0)
      | Some h \<Rightarrow>
          (let usage_history = h @ appended
           in if usage_history \<noteq> [] then
                (let final_usage = length usage_history
                 in case initial of
                      None \<Rightarrow> (0, 0)
                    | Some i \<Rightarrow>
                        if final_usage > i then tally (drop i usage_history) (0, 0) else (0, 0))
              else (0, 0)))"

definition json_opt :: "string option \<Rightarrow> json" where
  "json_opt v = (case v of None \<Rightarrow> JNull | Some x \<Rightarrow> JStr x)"

definition execution_data :: "self \<Rightarrow> string \<Rightarrow> string option \<Rightarrow> history \<Rightarrow> int \<times> rat \<Rightarrow> json" where
  "execution_data s task_text hint result totals =
     JObj [(''success'', JBool True),
           (''task'', JStr task_text),
           (''llm_provider'', JStr (llm_provider s)),
           (''deployment'', JStr (if llm_provider s = ''azure'' then azure_deployment s else ''N/A'')),
           (''steps_executed'', JInt (case all_results result of Some n \<Rightarrow> int n | None \<Rightarrow> 0)),
           (''final_result'', JStr (as_str result)),
           (''browser_context_id'', json_opt hint),
           (''token_usage'',
              JObj [(''total_tokens'', JInt (fst totals)),
                    (''total_cost'', JNum (snd totals)),
                    (''model'', JStr (llm_provider s))])]"

definition error_data :: "self \<Rightarrow> string \<Rightarrow> string option \<Rightarrow> exn \<Rightarrow> json" where
  "error_data s task_text hint e =
     JObj [(''success'', JBool False),
           (''task'', JStr task_text),
           (''error'', JStr (message e)),
           (''llm_provider'', JStr (llm_provider s)),
           (''browser_context_id'', json_opt hint)]"

definition execute_task_body ::
  "externals \<Rightarrow> self \<Rightarrow> string \<Rightarrow> string option \<Rightarrow> int \<Rightarrow> trace \<Rightarrow> (exn + json) \<times> self \<times> trace" where
  \<comment> \<open>the \<open>try\<close> block of \<open>execute_task\<close>\<close>
  "execute_task_body ext s task_text hint max_steps tr =
     (case create_agent ext s task_text hint max_steps tr of
        (Inl e, s1, tr1) \<Rightarrow> (Inl e, s1, tr1)
      | (Inr a, s1, tr1) \<Rightarrow>
          (let initial = initial_usage a;
               tr2 = tr1 @ [AgentRun]
           in case x_run ext tr2 of
                (Inl e, appended) \<Rightarrow> (Inl e, s1, tr2)
              | (Inr result, appended) \<Rightarrow>
                  (Inr (execution_data s1 task_text hint result (usage_totals a initial appended)),
                   s1, tr2)))"

definition execute_task ::
  "externals \<Rightarrow> self \<Rightarrow> string \<Rightarrow> string option \<Rightarrow> int \<Rightarrow> trace \<Rightarrow> (exn + json) \<times> self \<times> trace" where
  "execute_task ext s task_text hint max_steps tr =
     (case execute_task_body ext s task_text hint max_steps tr of
        (Inr d, s1, tr1) \<Rightarrow> (Inr d, s1, tr1)
      | (Inl e, s1, tr1) \<Rightarrow> (Inr (error_data s1 task_text hint e), s1, tr1))"

definition cleanup :: "externals \<Rightarrow> self \<Rightarrow> trace \<Rightarrow> trace" where
  \<comment> \<open>an exception of \<open>close()\<close> is caught and printed\<close>
  "cleanup ext s tr =
     (case agent s of
        None \<Rightarrow> tr
      | Some a \<Rightarrow>
          if browser a then
            (let tr1 = tr @ [BrowserClose]
             in case x_close ext tr1 of None \<Rightarrow> tr1 | Some e \<Rightarrow> tr1)
          else tr)"

subsection \<open>The remote API\<close>

definition create_session_body :: "externals \<Rightarrow> trace \<Rightarrow> (exn + json) \<times> trace" where
  \<comment> \<open>the \<open>try\<close> block of \<open>create_session_via_api\<close>; \<open>JNull\<close> is \<open>None\<close>\<close>
  "create_session_body ext tr =
     (let tr1 = tr @ [HttpPost ''http://localhost:3000/api/sessions/create'' (JObj [])]
      in case x_http ext tr1 of
           Inl e \<Rightarrow> (Inl e, tr1)
         | Inr response \<Rightarrow>
             if status response = 200 then
               (case json_body response of
                  Inl e \<Rightarrow> (Inl e, tr1)
                | Inr result \<Rightarrow>
                    (case py_get result ''sessionId'' of
                       Inl e \<Rightarrow> (Inl e, tr1)
                     | Inr session_id \<Rightarrow> (Inr session_id, tr1)))
             else
               (case text_body response of
                  Inl e \<Rightarrow> (Inl e, tr1)
                | Inr error_text \<Rightarrow> (Inr JNull, tr1)))"

definition create_session_via_api :: "externals \<Rightarrow> trace \<Rightarrow> json \<times> trace" where
  "create_session_via_api ext tr =
     (case create_session_body ext tr of
        (Inr v, tr1) \<Rightarrow> (v, tr1)
      | (Inl e, tr1) \<Rightarrow> (JNull, tr1))"

definition execute_payload :: "json \<Rightarrow> string \<Rightarrow> int \<Rightarrow> json" where
  "execute_payload session_id task_text max_steps =
     JObj [(''sessionId'', session_id),
           (''task'', JStr task_text),
           (''options'', JObj [(''llmModel'', JStr ''gpt-4.1''), (''maxSteps'', JInt max_steps)])]"

definition execute_via_api_body ::
  "externals \<Rightarrow> json \<Rightarrow> string \<Rightarrow> int \<Rightarrow> trace \<Rightarrow> (exn + json) \<times> trace" where
  \<comment> \<open>the \<open>try\<close> block of \<open>execute_task_via_api\<close>\<close>
  "execute_via_api_body ext session_id task_text max_steps tr =
     (let tr1 = tr @ [HttpPost ''http://localhost:3000/api/browser-use/execute''
                        (execute_payload session_id task_text max_steps)]
      in case x_http ext tr1 of
           Inl e \<Rightarrow> (Inl e, tr1)
         | Inr response \<Rightarrow>
             if status response = 200 then
               (case json_body response of
                  Inl e \<Rightarrow> (Inl e, tr1)
                | Inr result \<Rightarrow>
                    (case py_get result ''taskId'' of
                       Inl e \<Rightarrow> (Inl e, tr1)
                     | Inr task_id \<Rightarrow>
                         (case py_get result ''liveUrl'' of
                            Inl e \<Rightarrow> (Inl e, tr1)
                          | Inr live_url \<Rightarrow> (Inr result, tr1))))
             else
               (case text_body response of
                  Inl e \<Rightarrow> (Inl e, tr1)
                | Inr error_text \<Rightarrow> (Inr JNull, tr1)))"

definition execute_task_via_api ::
  "externals \<Rightarrow> json \<Rightarrow> string \<Rightarrow> int \<Rightarrow> trace \<Rightarrow> json \<times> trace" where
  "execute_task_via_api ext session_id task_text max_steps tr =
     (case execute_via_api_body ext session_id task_text max_steps tr of
        (Inr v, tr1) \<Rightarrow> (v, tr1)
      | (Inl e, tr1) \<Rightarrow> (JNull, tr1))"

definition status_url :: "externals \<Rightarrow> json \<Rightarrow> string" where
  \<comment> \<open>the f-string of line 410; \<open>x_str\<close> is Python's formatting of the task id\<close>
  "status_url ext task_id = ''http://localhost:3000/api/browser-use/status/'' @ x_str ext task_id"

definition monitor_body :: "externals \<Rightarrow> json \<Rightarrow> json \<Rightarrow> trace \<Rightarrow> (exn + json) \<times> trace" where
  \<comment> \<open>the \<open>try\<close> block of \<open>monitor_task_progress\<close>\<close>
  "monitor_body ext session_id task_id tr =
     (let tr1 = tr @ [HttpGet (status_url ext task_id)]
      in case x_http ext tr1 of
           Inl e \<Rightarrow> (Inl e, tr1)
         | Inr response \<Rightarrow>
             if status response = 200 then
               (case json_body response of
                  Inl e \<Rightarrow> (Inl e, tr1)
                | Inr result \<Rightarrow> (Inr result, tr1))
             else
               (case text_body response of
                  Inl e \<Rightarrow> (Inl e, tr1)
                | Inr error_text \<Rightarrow> (Inr JNull, tr1)))"

definition monitor_task_progress :: "externals \<Rightarrow> json \<Rightarrow> json \<Rightarrow> trace \<Rightarrow> json \<times> trace" where
  "monitor_task_progress ext session_id task_id tr =
     (case monitor_body ext session_id task_id tr of
        (Inr v, tr1) \<Rightarrow> (v, tr1)
      | (Inl e, tr1) \<Rightarrow> (JNull, tr1))"

section \<open>main\<close>

definition sanitize_token :: "string \<Rightarrow> string" where
  \<comment> \<open>\<open>token.replace('\xa0', ' ').strip()\<close>\<close>
  "sanitize_token token = py_strip (map (\<lambda>c. if c = CHR 0xA0 then CHR '' '' else c) token)"

fun strip_flags :: "string list \<Rightarrow> bool \<times> bool \<times> string list \<Rightarrow> bool \<times> bool \<times> string list" where
  \<comment> \<open>the loop of lines 475 to 486 over \<open>(use_api, disable_highlighting, cleaned_args)\<close>\<close>
  "strip_flags [] acc = acc"
| "strip_flags (token # rest) (use_api, dh, cleaned_args) =
     (let has_api = py_in ''--api'' token;
          use_api1 = (if has_api then True else use_api);
          token1 = (if has_api then py_strip (py_remove ''--api'' token) else token)
      in if has_api \<and> token1 = [] then strip_flags rest (use_api1, dh, cleaned_args)
         else
           (let has_dh = py_in ''--disable-highlighting'' token1;
                dh1 = (if has_dh then True else dh);
                token2 = (if has_dh then py_strip (py_remove ''--disable-highlighting'' token1)
                          else token1)
            in if has_dh \<and> token2 = [] then strip_flags rest (use_api1, dh1, cleaned_args)
               else strip_flags rest (use_api1, dh1, cleaned_args @ [token2])))"

record request =
  arg_task :: string
  arg_max_steps :: int
  arg_session_id :: "string option"
  arg_browser_context_id :: "string option"
  arg_use_api :: bool
  arg_disable_highlighting :: bool

definition resplit :: "string list \<Rightarrow> string list" where
  \<comment> \<open>lines 495 to 497\<close>
  "resplit args =
     (case args of
        [a] \<Rightarrow> if py_in ''  '' a then filter (\<lambda>p. p \<noteq> []) (py_split CHR '' '' a) else args
      | _ \<Rightarrow> args)"

definition parse_args :: "externals \<Rightarrow> string list \<Rightarrow> exn + request option" where
  \<comment> \<open>lines 460 to 502 on \<open>sys.argv[1:]\<close>; \<open>Inr None\<close> is the return of line 492\<close>
  "parse_args ext raw_args =
     (case strip_flags (map sanitize_token raw_args) (False, False, []) of
        (use_api, dh, cleaned_args) \<Rightarrow>
          if length cleaned_args < 1 then Inr None
          else
            (case resplit cleaned_args of
               [] \<Rightarrow> Inl (Exn IndexError ''list index out of range'')
             | a0 # others \<Rightarrow>
                 (case (if length (a0 # others) > 1 then x_int ext ((a0 # others) ! 1) else Inr 10) of
                    Inl e \<Rightarrow> Inl e
                  | Inr n \<Rightarrow>
                      Inr (Some \<lparr>arg_task = a0,
                                 arg_max_steps = n,
                                 arg_session_id =
                                   (if length (a0 # others) > 2 then Some ((a0 # others) ! 2) else None),
                                 arg_browser_context_id =
                                   (if length (a0 # others) > 3 then Some ((a0 # others) ! 3) else None),
                                 arg_use_api = use_api,
                                 arg_disable_highlighting = dh\<rparr>))))"

datatype outcome = Returned | SysExit int | Uncaught exn

fun exit_status :: "outcome \<Rightarrow> int" where
  \<comment> \<open>the status of \<open>asyncio.run(main())\<close>: an uncaught exception ends the interpreter with 1\<close>
  "exit_status Returned = 0"
| "exit_status (SysExit n) = n"
| "exit_status (Uncaught e) = 1"

definition monitor_if_started :: "externals \<Rightarrow> json \<Rightarrow> json \<Rightarrow> trace \<Rightarrow> (exn + unit) \<times> trace" where
  \<comment> \<open>lines 535 to 545, and again lines 548 to 558\<close>
  "monitor_if_started ext session_id result tr =
     (case py_get result ''taskId'' of
        Inl e \<Rightarrow> (Inl e, tr)
      | Inr task_id \<Rightarrow>
          if truthy task_id then
            (case monitor_task_progress ext session_id task_id tr of
               (progress_result, tr1) \<Rightarrow> (Inr (), tr1))
          else (Inr (), tr))"

definition api_body :: "externals \<Rightarrow> string \<Rightarrow> int \<Rightarrow> trace \<Rightarrow> (exn + unit) \<times> trace" where
  \<comment> \<open>the \<open>try\<close> block of lines 521 to 563; every path through it returns from \<open>main\<close>\<close>
  "api_body ext task_text max_steps tr =
     (case create_session_via_api ext tr of
        (session_id, tr1) \<Rightarrow>
          if \<not> truthy session_id then (Inr (), tr1)
          else
            (case execute_task_via_api ext session_id task_text max_steps tr1 of
               (result, tr2) \<Rightarrow>
                 if \<not> truthy result then (Inr (), tr2)
                 else
                   (case monitor_if_started ext session_id result tr2 of
                      (Inl e, tr3) \<Rightarrow> (Inl e, tr3)
                    | (Inr u, tr3) \<Rightarrow>
                        (case monitor_if_started ext session_id result tr3 of
                           (Inl e, tr4) \<Rightarrow> (Inl e, tr4)
                         | (Inr u', tr4) \<Rightarrow> (Inr (), tr4 @ [PrintJson result])))))"

definition api_mode :: "externals \<Rightarrow> request \<Rightarrow> trace \<Rightarrow> outcome \<times> trace" where
  \<comment> \<open>lines 514 to 569\<close>
  "api_mode ext req tr =
     (case init ext True (arg_disable_highlighting req) of
        Inl e \<Rightarrow> (Uncaught e, tr)
      | Inr s \<Rightarrow>
          (case api_body ext (arg_task req) (arg_max_steps req) tr of
             (Inr u, tr1) \<Rightarrow> (Returned, tr1)
           | (Inl e, tr1) \<Rightarrow> (Returned, tr1)))"

definition main_error_result :: "string \<Rightarrow> exn \<Rightarrow> json" where
  "main_error_result task_text e =
     JObj [(''success'', JBool False), (''error'', JStr (message e)), (''task'', JStr task_text)]"

definition local_mode :: "externals \<Rightarrow> request \<Rightarrow> trace \<Rightarrow> outcome \<times> trace" where
  \<comment> \<open>lines 588 to 623; \<open>cleanup\<close> is the \<open>finally\<close> block\<close>
  "local_mode ext req tr =
     (case init ext False (arg_disable_highlighting req) of
        Inl e \<Rightarrow> (Uncaught e, tr)
      | Inr s \<Rightarrow>
          (case execute_task ext s (arg_task req) (arg_browser_context_id req) (arg_max_steps req) tr of
             (Inr result, s1, tr1) \<Rightarrow> (Returned, cleanup ext s1 (tr1 @ [PrintJson result]))
           | (Inl e, s1, tr1) \<Rightarrow>
               (SysExit 1, cleanup ext s1 (tr1 @ [PrintJson (main_error_result (arg_task req) e)]))))"

definition main :: "externals \<Rightarrow> string list \<Rightarrow> outcome \<times> trace" where
  \<comment> \<open>\<open>argv\<close> is \<open>sys.argv\<close>, the script's name first\<close>
  "main ext argv =
     (if length argv < 2 then (Returned, [])
      else
        (case parse_args ext (tl argv) of
           Inl e \<Rightarrow> (Uncaught e, [])
         | Inr None \<Rightarrow> (Returned, [])
         | Inr (Some req) \<Rightarrow> if arg_use_api req then api_mode ext req [] else local_mode ext req []))"

section \<open>Observations on traces\<close>

fun is_call :: "event \<Rightarrow> bool" where
  "is_call (CreateAgentCall hint) = True"
| "is_call ev = False"

fun is_attach :: "event \<Rightarrow> bool" where
  "is_attach (BrowserSessionNew url loc) = True"
| "is_attach ev = False"

fun is_get :: "event \<Rightarrow> bool" where
  "is_get (HttpGet url) = True"
| "is_get ev = False"

fun printed :: "trace \<Rightarrow> json list" where
  \<comment> \<open>the result documents written to standard output, in order\<close>
  "printed [] = []"
| "printed (PrintJson d # evs) = d # printed evs"
| "printed (ev # evs) = printed evs"

definition calls :: "trace \<Rightarrow> nat" where
  "calls tr = length (filter is_call tr)"

definition attaches :: "trace \<Rightarrow> nat" where
  "attaches tr = length (filter is_attach tr)"

definition gets :: "trace \<Rightarrow> nat" where
  "gets tr = length (filter is_get tr)"

section \<open>Concrete collaborators for the examples\<close>

definition is_digit :: "char \<Rightarrow> bool" where
  "is_digit c = (48 \<le> (of_char c :: nat) \<and> (of_char c :: nat) \<le> 57)"

definition digit_value :: "char \<Rightarrow> nat" where
  "digit_value c = of_char c - 48"

fun parse_digits :: "string \<Rightarrow> nat \<Rightarrow> nat option" where
  \<comment> \<open>the digits after the first one; an underscore may stand between two digits\<close>
  "parse_digits [] acc = Some acc"
| "parse_digits [c] acc = (if is_digit c then Some (10 * acc + digit_value c) else None)"
| "parse_digits (c # d # cs) acc =
     (if is_digit c then parse_digits (d # cs) (10 * acc + digit_value c)
      else if c = CHR ''_'' \<and> is_digit d then parse_digits (d # cs) acc
      else None)"

definition invalid_literal :: exn where
  "invalid_literal = Exn ValueError ''invalid literal for int() with base 10''"

definition decimal_int :: "string \<Rightarrow> exn + int" where
  \<comment> \<open>\<open>int(s)\<close> on a decimal literal: surrounding whitespace, an optional sign, digits\<close>
  "decimal_int s =
     (let t = py_strip s;
          negative = (case t of [] \<Rightarrow> False | c # cs \<Rightarrow> c = CHR ''-'');
          body = (case t of [] \<Rightarrow> [] | c # cs \<Rightarrow> if c = CHR ''-'' \<or> c = CHR ''+'' then cs else t)
      in case body of
           [] \<Rightarrow> Inl invalid_literal
         | c # cs \<Rightarrow>
             if is_digit c then
               (case parse_digits cs (digit_value c) of
                  None \<Rightarrow> Inl invalid_literal
                | Some n \<Rightarrow> Inr (if negative then - int n else int n))
             else Inl invalid_literal)"

definition str_of_json :: "json \<Rightarrow> string" where
  \<comment> \<open>\<open>str\<close> of a task id that is a JSON string\<close>
  "str_of_json j = (case j of JStr s \<Rightarrow> s | _ \<Rightarrow> [])"

definition ok_response :: "json \<Rightarrow> http_response" where
  "ok_response j = \<lparr>status = 200, json_body = Inr j, text_body = Inr []\<rparr>"

definition error_response :: "int \<Rightarrow> string \<Rightarrow> http_response" where
  "error_response code txt =
     \<lparr>status = code, json_body = Inl (Exn OtherError ''not JSON''), text_body = Inr txt\<rparr>"

definition fresh_agent :: agent where
  \<comment> \<open>a newly built agent: a cost service with an empty \<open>usage_history\<close>, and a browser\<close>
  "fresh_agent = \<lparr>token_cost_service = Some [], browser = True\<rparr>"

definition azure_env :: "string \<Rightarrow> string option" where
  "azure_env k =
     (if k = ''AZURE_OPENAI_API_KEY'' then Some ''key''
      else if k = ''AZURE_OPENAI_ENDPOINT'' then Some ''https://example.openai.azure.com''
      else None)"

definition calm_world :: externals where
  \<comment> \<open>Azure credentials only; every collaborator succeeds and the run records no usage\<close>
  "calm_world =
     \<lparr>x_getenv = azure_env,
      x_int = decimal_int,
      x_str = str_of_json,
      x_BrowserSession = (\<lambda>tr. None),
      x_Agent = (\<lambda>tr. Inr fresh_agent),
      x_import_highlights = (\<lambda>tr. None),
      x_initialize = (\<lambda>tr. None),
      x_run = (\<lambda>tr. (Inr \<lparr>all_results = Some 3, as_str = ''done''\<rparr>, [])),
      x_close = (\<lambda>tr. None),
      x_http = (\<lambda>tr. Inr (ok_response (JObj [])))\<rparr>"

definition metered_records :: "usage_entry list" where
  "metered_records = [\<lparr>model = ''gpt-4.1'', prompt_tokens = 10, completion_tokens = 5\<rparr>]"

definition metered_world :: externals where
  \<comment> \<open>as \<open>calm_world\<close>, but the run appends one usage record to the agent's empty history\<close>
  "metered_world =
     calm_world\<lparr>x_run := (\<lambda>tr. (Inr \<lparr>all_results = Some 3, as_str = ''done''\<rparr>, metered_records))\<rparr>"

definition crash_world :: externals where
  \<comment> \<open>as \<open>calm_world\<close>, but \<open>agent.run()\<close> raises\<close>
  "crash_world = calm_world\<lparr>x_run := (\<lambda>tr. (Inl (Exn OtherError ''browser crashed''), []))\<rparr>"

definition polling_world :: externals where
  \<comment> \<open>the platform answers 200 to the session creation, the submission and every status request\<close>
  "polling_world =
     calm_world\<lparr>x_http := (\<lambda>tr.
        if length tr = 1 then Inr (ok_response (JObj [(''sessionId'', JStr ''s1'')]))
        else if length tr = 2 then
          Inr (ok_response (JObj [(''taskId'', JStr ''t1''), (''liveUrl'', JStr ''u'')]))
        else Inr (ok_response (JObj [(''status'', JStr ''running'')])))\<rparr>"

definition refusing_world :: externals where
  \<comment> \<open>as \<open>calm_world\<close>, but no browser listens on the endpoint: \<open>BrowserSession\<close> raises\<close>
  "refusing_world = calm_world\<lparr>x_BrowserSession := (\<lambda>tr. Some (Exn OtherError ''connection refused''))\<rparr>"

definition hopeless_world :: externals where
  \<comment> \<open>as \<open>refusing_world\<close>, and \<open>Agent\<close> raises as well\<close>
  "hopeless_world = refusing_world\<lparr>x_Agent := (\<lambda>tr. Inl (Exn OtherError ''no browser''))\<rparr>"

definition preferred_ready :: "self \<Rightarrow> bool" where
  \<comment> \<open>the preferred provider is one of the three and its credentials are all non-empty\<close>
  "preferred_ready s =
     ((llm_provider s = ''azure'' \<and> azure_configured s) \<or>
      (llm_provider s = ''openai'' \<and> truthy_str (openai_api_key s)) \<or>
      (llm_provider s = ''google'' \<and> truthy_str (google_api_key s)))"

definition bare_world :: externals where
  \<comment> \<open>as \<open>polling_world\<close>, with no environment variable set: no provider has credentials\<close>
  "bare_world = polling_world\<lparr>x_getenv := (\<lambda>k. None)\<rparr>"

definition calm_self :: self where
  \<comment> \<open>the attributes \<open>load_environment\<close> sets in \<open>calm_world\<close>\<close>
  "calm_self =
     \<lparr>azure_api_key = Some ''key'', azure_endpoint = Some ''https://example.openai.azure.com'',
      azure_deployment = ''gpt-4.1'', api_version = ''2024-08-01-preview'',
      openai_api_key = None, google_api_key = None, llm_provider = ''azure'', headless = True,
      browser_port = 9222, llm = None, disable_highlighting = False, agent = None\<rparr>"

definition bare_self :: self where
  \<comment> \<open>the attributes \<open>load_environment\<close> sets when no variable is set\<close>
  "bare_self = calm_self\<lparr>azure_api_key := None, azure_endpoint := None\<rparr>"

definition simple_request :: request where
  "simple_request =
     \<lparr>arg_task = ''open example.com'', arg_max_steps = 10, arg_session_id = None,
      arg_browser_context_id = None, arg_use_api = False, arg_disable_highlighting = False\<rparr>"

definition create_url :: string where
  "create_url = ''http://localhost:3000/api/sessions/create''"

definition http500_world :: externals where
  \<comment> \<open>as \<open>bare_world\<close>, but the platform answers every request with status 500\<close>
  "http500_world = bare_world\<lparr>x_http := (\<lambda>tr. Inr (error_response 500 ''Internal Server Error''))\<rparr>"

definition offline_world :: externals where
  \<comment> \<open>as \<open>bare_world\<close>, but every request fails in the network\<close>
  "offline_world = bare_world\<lparr>x_http := (\<lambda>tr. Inl (Exn OtherError ''Cannot connect to host''))\<rparr>"

definition startup_raises :: "externals \<Rightarrow> string list \<Rightarrow> exn \<Rightarrow> bool" where
  \<comment> \<open>an exception leaves \<open>main\<close> before execution starts: from \<open>int\<close> on \<open>max_steps\<close> while
      the arguments are read, or from the constructor of the agent object\<close>
  "startup_raises ext argv e =
     (2 \<le> length argv \<and>
      (case parse_args ext (tl argv) of
         Inl e' \<Rightarrow> e' = e
       | Inr None \<Rightarrow> False
       | Inr (Some req) \<Rightarrow> init ext (arg_use_api req) (arg_disable_highlighting req) = Inl e))"

definition trimmed :: "string \<Rightarrow> bool" where
  \<comment> \<open>no whitespace at either end\<close>
  "trimmed s = (s = [] \<or> (\<not> is_space (hd s) \<and> \<not> is_space (last s)))"

definition words :: "string \<Rightarrow> string list" where
  \<comment> \<open>\<open>[p for p in a.split(' ') if p]\<close>\<close>
  "words a = filter (\<lambda>p. p \<noteq> []) (py_split CHR '' '' a)"

section \<open>Properties\<close>

subsection \<open>execute_task\<close>

lemma execute_task_cases:
  "(\<exists>e s1 tr1. execute_task_body ext s t h n tr = (Inl e, s1, tr1) \<and>
        execute_task ext s t h n tr = (Inr (error_data s1 t h e), s1, tr1)) \<or>
   (\<exists>a s1 tr1 result appended.
        create_agent ext s t h n tr = (Inr a, s1, tr1) \<and>
        x_run ext (tr1 @ [AgentRun]) = (Inr result, appended) \<and>
        execute_task ext s t h n tr =
          (Inr (execution_data s1 t h result (usage_totals a (initial_usage a) appended)),
           s1, tr1 @ [AgentRun]))"
  unfolding execute_task_def execute_task_body_def
  by (auto split: prod.splits sum.splits simp: Let_def)

lemma crash_world_create:
  "create_agent crash_world new_object ''open example.com'' None 10 [] =
     (Inr fresh_agent, new_object\<lparr>agent := Some fresh_agent\<rparr>,
      [CreateAgentCall None, AgentNew ''open example.com'' None 10 None, TokenCostInitialize])"
  by (simp add: create_agent.simps create_agent_body_def connect_def remote_endpoint_def
      patch_highlighting_def init_cost_tracking_def crash_world_def calm_world_def
      fresh_agent_def new_object_def truthy_str_def)

lemma crash_world_run:
  "fst (execute_task crash_world new_object ''open example.com'' None 10 []) =
     Inr (error_data (new_object\<lparr>agent := Some fresh_agent\<rparr>) ''open example.com'' None
            (Exn OtherError ''browser crashed''))"
  by (simp add: execute_task_def execute_task_body_def crash_world_create)
     (simp add: crash_world_def calm_world_def)

lemma calm_world_run:
  "fst (execute_task calm_world new_object ''open example.com'' None 10 []) =
     Inr (execution_data (new_object\<lparr>agent := Some fresh_agent\<rparr>) ''open example.com'' None
            \<lparr>all_results = Some 3, as_str = ''done''\<rparr> (0, 0))"
  by (simp add: execute_task_def execute_task_body_def create_agent.simps create_agent_body_def
      connect_def remote_endpoint_def patch_highlighting_def init_cost_tracking_def calm_world_def
      fresh_agent_def new_object_def truthy_str_def initial_usage_def usage_totals_def)

lemma usage_totals_empty_baseline:
  "token_cost_service a = Some [] \<Longrightarrow> usage_totals a (initial_usage a) appended = (0, 0)"
  by (simp add: usage_totals_def initial_usage_def)

lemma usage_totals_nonempty_baseline:
  "token_cost_service a = Some h \<Longrightarrow> h \<noteq> [] \<Longrightarrow>
   usage_totals a (initial_usage a) appended = tally appended (0, 0)"
  by (cases appended) (simp_all add: usage_totals_def initial_usage_def)

text \<open>
  C2 (the code departs from the claim). A newly built agent has an empty
  \<open>usage_history\<close>, which is falsy, so line 251 leaves \<open>initial_usage\<close> at \<open>None\<close> and the
  test of line 263 fails: the run below appends one record of 10 prompt and 5 completion
  tokens, whose sum is 15, and the printed result reports \<open>total_tokens\<close> 0 and
  \<open>total_cost\<close> 0.
\<close>

theorem execute_task_fresh_history_reports_zero:
  "printed (snd (main metered_world [''agent.py'', ''open example.com''])) =
     [JObj [(''success'', JBool True), (''task'', JStr ''open example.com''),
            (''llm_provider'', JStr ''azure''), (''deployment'', JStr ''gpt-4.1''),
            (''steps_executed'', JInt 3), (''final_result'', JStr ''done''),
            (''browser_context_id'', JNull),
            (''token_usage'',
               JObj [(''total_tokens'', JInt 0), (''total_cost'', JNum 0),
                     (''model'', JStr ''azure'')])]]
   \<and> tally metered_records (0, 0) = (15, 1 / 400)"
  by code_simp

text \<open>
  C6. \<open>execute_task\<close> always returns a result and never an exception: an exception raised
  by \<open>create_agent\<close> (agent construction) or by \<open>agent.run()\<close> (execution) becomes the
  result \<open>error_data\<close>, whose \<open>success\<close> is false and whose \<open>error\<close> is the exception's
  message.
\<close>

theorem execute_task_never_raises:
  "(\<exists>d s1 tr1. execute_task ext s t h n tr = (Inr d, s1, tr1)) \<and>
   (\<forall>e s1 tr1. create_agent ext s t h n tr = (Inl e, s1, tr1) \<longrightarrow>
        execute_task ext s t h n tr = (Inr (error_data s1 t h e), s1, tr1)) \<and>
   (\<forall>e a s1 tr1. create_agent ext s t h n tr = (Inr a, s1, tr1) \<and>
        fst (x_run ext (tr1 @ [AgentRun])) = Inl e \<longrightarrow>
        execute_task ext s t h n tr = (Inr (error_data s1 t h e), s1, tr1 @ [AgentRun])) \<and>
   (\<forall>e s1. py_get (error_data s1 t h e) ''success'' = Inr (JBool False) \<and>
        py_get (error_data s1 t h e) ''error'' = Inr (JStr (message e)))"
proof (intro conjI allI impI)
  show "\<exists>d s1 tr1. execute_task ext s t h n tr = (Inr d, s1, tr1)"
    using execute_task_cases [of ext s t h n tr] by blast
next
  fix e s1 tr1
  assume "create_agent ext s t h n tr = (Inl e, s1, tr1)"
  then show "execute_task ext s t h n tr = (Inr (error_data s1 t h e), s1, tr1)"
    by (simp add: execute_task_def execute_task_body_def)
next
  fix e a s1 tr1
  assume "create_agent ext s t h n tr = (Inr a, s1, tr1) \<and> fst (x_run ext (tr1 @ [AgentRun])) = Inl e"
  then show "execute_task ext s t h n tr = (Inr (error_data s1 t h e), s1, tr1 @ [AgentRun])"
    by (cases "x_run ext (tr1 @ [AgentRun])") (simp add: execute_task_def execute_task_body_def)
next
  fix e s1
  show "py_get (error_data s1 t h e) ''success'' = Inr (JBool False)"
    by (simp add: error_data_def)
  show "py_get (error_data s1 t h e) ''error'' = Inr (JStr (message e))"
    by (simp add: error_data_def)
qed

theorem execute_task_never_raises_witness:
  "execute_task crash_world new_object ''open example.com'' None 10 [] =
     (Inr (error_data (new_object\<lparr>agent := Some fresh_agent\<rparr>) ''open example.com'' None
             (Exn OtherError ''browser crashed'')),
      new_object\<lparr>agent := Some fresh_agent\<rparr>,
      [CreateAgentCall None, AgentNew ''open example.com'' None 10 None, TokenCostInitialize,
       AgentRun])"
proof -
  have raised: "fst (x_run crash_world
      ([CreateAgentCall None, AgentNew ''open example.com'' None 10 None, TokenCostInitialize]
       @ [AgentRun])) = Inl (Exn OtherError ''browser crashed'')"
    by (simp add: crash_world_def calm_world_def)
  show ?thesis
    using execute_task_never_raises [of crash_world new_object "''open example.com''" None 10 "[]"]
      crash_world_create raised
    by simp
qed

text \<open>
  C7. The result of \<open>execute_task\<close> is a JSON object (a value of type \<open>json\<close>, so it can be
  serialised) with distinct keys and a Boolean \<open>success\<close>; when \<open>success\<close> is true it has a
  string \<open>final_result\<close> and no \<open>error\<close>, and when \<open>success\<close> is false it has a string
  \<open>error\<close> and no \<open>final_result\<close>.
\<close>

theorem execute_task_result_shape:
  "\<exists>kvs b s1 tr1.
      execute_task ext s t h n tr = (Inr (JObj kvs), s1, tr1) \<and>
      distinct (map fst kvs) \<and>
      map_of kvs ''success'' = Some (JBool b) \<and>
      (b \<longrightarrow> (\<exists>r. map_of kvs ''final_result'' = Some (JStr r)) \<and> map_of kvs ''error'' = None) \<and>
      (\<not> b \<longrightarrow> (\<exists>m. map_of kvs ''error'' = Some (JStr m)) \<and> map_of kvs ''final_result'' = None)"
  using execute_task_cases [of ext s t h n tr]
  by (elim disjE exE conjE) (auto simp add: error_data_def execution_data_def)

theorem execute_task_result_shape_witness:
  "(\<exists>kvs s1 tr1.
      execute_task calm_world new_object ''open example.com'' None 10 [] = (Inr (JObj kvs), s1, tr1) \<and>
      map_of kvs ''success'' = Some (JBool True) \<and>
      (\<exists>r. map_of kvs ''final_result'' = Some (JStr r)) \<and> map_of kvs ''error'' = None) \<and>
   (\<exists>kvs s1 tr1.
      execute_task crash_world new_object ''open example.com'' None 10 [] = (Inr (JObj kvs), s1, tr1) \<and>
      map_of kvs ''success'' = Some (JBool False) \<and>
      (\<exists>m. map_of kvs ''error'' = Some (JStr m)) \<and> map_of kvs ''final_result'' = None)"
proof
  obtain kvs b s1 tr1 where
    r: "execute_task calm_world new_object ''open example.com'' None 10 [] = (Inr (JObj kvs), s1, tr1)"
    and ok: "map_of kvs ''success'' = Some (JBool b)"
    and shape: "b \<longrightarrow> (\<exists>r. map_of kvs ''final_result'' = Some (JStr r)) \<and> map_of kvs ''error'' = None"
    using execute_task_result_shape [of calm_world new_object "''open example.com''" None 10 "[]"]
    by blast
  from r calm_world_run have st: "map_of kvs ''success'' = Some (JBool True)"
    by (simp add: execution_data_def)
  with ok have b by simp
  with r st shape show "\<exists>kvs s1 tr1.
      execute_task calm_world new_object ''open example.com'' None 10 [] = (Inr (JObj kvs), s1, tr1) \<and>
      map_of kvs ''success'' = Some (JBool True) \<and>
      (\<exists>r. map_of kvs ''final_result'' = Some (JStr r)) \<and> map_of kvs ''error'' = None"
    by auto
next
  obtain kvs b s1 tr1 where
    r: "execute_task crash_world new_object ''open example.com'' None 10 [] = (Inr (JObj kvs), s1, tr1)"
    and ok: "map_of kvs ''success'' = Some (JBool b)"
    and shape: "\<not> b \<longrightarrow> (\<exists>m. map_of kvs ''error'' = Some (JStr m)) \<and> map_of kvs ''final_result'' = None"
    using execute_task_result_shape [of crash_world new_object "''open example.com''" None 10 "[]"]
    by blast
  from r crash_world_run have st: "map_of kvs ''success'' = Some (JBool False)"
    by (simp add: error_data_def)
  with ok have "\<not> b" by simp
  with r st shape show "\<exists>kvs s1 tr1.
      execute_task crash_world new_object ''open example.com'' None 10 [] = (Inr (JObj kvs), s1, tr1) \<and>
      map_of kvs ''success'' = Some (JBool False) \<and>
      (\<exists>m. map_of kvs ''error'' = Some (JStr m)) \<and> map_of kvs ''final_result'' = None"
    by auto
qed

subsection \<open>The remote path\<close>

text \<open>
  C4 (the code departs from the claim). The block of lines 534 to 545 that polls the
  status endpoint is repeated at lines 547 to 558, so a run whose submission returns a
  task id sends two GET requests to the status endpoint, not one.
\<close>

theorem api_run_polls_twice:
  "snd (main polling_world [''agent.py'', ''open example.com'', ''--api'']) =
     [HttpPost ''http://localhost:3000/api/sessions/create'' (JObj []),
      HttpPost ''http://localhost:3000/api/browser-use/execute''
        (JObj [(''sessionId'', JStr ''s1''), (''task'', JStr ''open example.com''),
               (''options'', JObj [(''llmModel'', JStr ''gpt-4.1''), (''maxSteps'', JInt 10)])]),
      HttpGet ''http://localhost:3000/api/browser-use/status/t1'',
      HttpGet ''http://localhost:3000/api/browser-use/status/t1'',
      PrintJson (JObj [(''taskId'', JStr ''t1''), (''liveUrl'', JStr ''u'')])]
   \<and> gets (snd (main polling_world [''agent.py'', ''open example.com'', ''--api''])) = 2"
  by code_simp

subsection \<open>create_agent\<close>

lemma startswith_ws_nonempty: "startswith ''ws://'' h \<Longrightarrow> h \<noteq> []"
  by (auto simp: startswith_def)

lemma remote_endpoint_ws: "startswith ''ws://'' h \<Longrightarrow> remote_endpoint (Some h) = Some h"
  by (simp add: remote_endpoint_def startswith_ws_nonempty)

lemma remote_endpoint_other:
  "hint = None \<or> (\<exists>h. hint = Some h \<and> \<not> startswith ''ws://'' h) \<Longrightarrow> remote_endpoint hint = None"
  by (auto simp: remote_endpoint_def)

lemma remote_endpoint_cleared: "remote_endpoint (Some []) = None"
  by (simp add: remote_endpoint_def)

lemma calls_append: "calls (tr @ evs) = calls tr + calls evs"
  by (simp add: calls_def)

lemma attaches_append: "attaches (tr @ evs) = attaches tr + attaches evs"
  by (simp add: attaches_def)

lemma counts_single:
  "calls [CreateAgentCall hint] = 1" "attaches [CreateAgentCall hint] = 0"
  "calls [BrowserSessionNew url loc] = 0" "attaches [BrowserSessionNew url loc] = 1"
  "calls [AgentNew t l n bs] = 0" "attaches [AgentNew t l n bs] = 0"
  "calls [ImportHighlights] = 0" "attaches [ImportHighlights] = 0"
  "calls [TokenCostInitialize] = 0" "attaches [TokenCostInitialize] = 0"
  by (simp_all add: calls_def attaches_def)

lemma connect_trace:
  "connect ext hint tr = (r, tr1) \<Longrightarrow>
     calls tr1 = calls tr \<and>
     attaches tr1 = attaches tr + (if remote_endpoint hint = None then 0 else 1) \<and>
     (remote_endpoint hint = None \<longrightarrow> r = Inr None \<and> tr1 = tr)"
  by (auto simp: connect_def Let_def calls_append attaches_append counts_single
      split: option.splits)

lemma patch_highlighting_trace:
  "patch_highlighting ext s tr = (r, tr1) \<Longrightarrow>
     calls tr1 = calls tr \<and> attaches tr1 = attaches tr \<and> (\<exists>evs. tr1 = tr @ evs)"
  by (auto simp: patch_highlighting_def Let_def calls_append attaches_append counts_single
      split: option.splits if_splits)

lemma init_cost_tracking_trace:
  "init_cost_tracking ext a tr = (r, tr1) \<Longrightarrow>
     calls tr1 = calls tr \<and> attaches tr1 = attaches tr \<and> (\<exists>evs. tr1 = tr @ evs)"
  by (auto simp: init_cost_tracking_def Let_def calls_append attaches_append counts_single
      split: option.splits)

lemma create_agent_body_trace:
  assumes "create_agent_body ext s t hint n tr = (r, s1, tr1)"
  shows "calls tr1 = calls tr"
    and "attaches tr1 = attaches tr + (if remote_endpoint hint = None then 0 else 1)"
    and "remote_endpoint hint = None \<Longrightarrow> \<exists>evs. tr1 = tr @ AgentNew t (llm s) n None # evs"
proof -
  obtain c trc where c: "connect ext hint tr = (c, trc)" by (cases "connect ext hint tr")
  note ct = connect_trace [OF c]
  show "calls tr1 = calls tr"
    using assms c ct
    by (auto simp: create_agent_body_def Let_def calls_append counts_single
        split: sum.splits prod.splits option.splits
        dest!: patch_highlighting_trace init_cost_tracking_trace)
  show "attaches tr1 = attaches tr + (if remote_endpoint hint = None then 0 else 1)"
    using assms c ct
    by (auto simp: create_agent_body_def Let_def attaches_append counts_single
        split: sum.splits prod.splits option.splits
        dest!: patch_highlighting_trace init_cost_tracking_trace)
  show "\<exists>evs. tr1 = tr @ AgentNew t (llm s) n None # evs" if "remote_endpoint hint = None"
    using assms c ct that
    by (auto simp: create_agent_body_def Let_def
        split: sum.splits prod.splits option.splits
        dest!: patch_highlighting_trace init_cost_tracking_trace)
qed

lemma create_agent_cleared:
  "create_agent ext s t (Some []) n tr =
     create_agent_body ext s t (Some []) n (tr @ [CreateAgentCall (Some [])])"
  by (subst create_agent.simps) (auto simp: truthy_str_def split: prod.splits sum.splits)

lemma create_agent_retry:
  "truthy_str hint \<Longrightarrow>
   create_agent_body ext s t hint n (tr @ [CreateAgentCall hint]) = (Inl e, s1, tr1) \<Longrightarrow>
   create_agent ext s t hint n tr =
     create_agent_body ext s1 t (Some []) n (tr1 @ [CreateAgentCall (Some [])])"
  by (subst create_agent.simps) (simp add: create_agent_cleared)

lemma create_agent_done:
  "create_agent_body ext s t hint n (tr @ [CreateAgentCall hint]) = (Inr a, s1, tr1) \<Longrightarrow>
   create_agent ext s t hint n tr = (Inr a, s1, tr1)"
  by (subst create_agent.simps) simp

lemma create_agent_no_retry:
  "\<not> truthy_str hint \<Longrightarrow>
   create_agent ext s t hint n tr = create_agent_body ext s t hint n (tr @ [CreateAgentCall hint])"
  by (subst create_agent.simps) (auto split: prod.splits sum.splits)

lemmas create_agent_body_defs =
  create_agent_body_def connect_def remote_endpoint_def startswith_def patch_highlighting_def
  init_cost_tracking_def

lemma refusing_world_first:
  "create_agent_body refusing_world new_object ''open example.com'' (Some ''ws://bad-host/x'') 10
     ([] @ [CreateAgentCall (Some ''ws://bad-host/x'')]) =
   (Inl (Exn OtherError ''connection refused''), new_object,
    [CreateAgentCall (Some ''ws://bad-host/x''), BrowserSessionNew ''ws://bad-host/x'' False])"
  by (simp add: create_agent_body_defs refusing_world_def calm_world_def)

lemma hopeless_world_first:
  "create_agent_body hopeless_world new_object ''open example.com'' (Some ''ws://bad-host/x'') 10
     ([] @ [CreateAgentCall (Some ''ws://bad-host/x'')]) =
   (Inl (Exn OtherError ''connection refused''), new_object,
    [CreateAgentCall (Some ''ws://bad-host/x''), BrowserSessionNew ''ws://bad-host/x'' False])"
  by (simp add: create_agent_body_defs hopeless_world_def refusing_world_def calm_world_def)

lemma hopeless_world_second:
  "create_agent_body hopeless_world new_object ''open example.com'' (Some []) 10
     ([CreateAgentCall (Some ''ws://bad-host/x''), BrowserSessionNew ''ws://bad-host/x'' False]
      @ [CreateAgentCall (Some [])]) =
   (Inl (Exn OtherError ''no browser''), new_object,
    [CreateAgentCall (Some ''ws://bad-host/x''), BrowserSessionNew ''ws://bad-host/x'' False,
     CreateAgentCall (Some []), AgentNew ''open example.com'' None 10 None])"
  by (simp add: create_agent_body_defs hopeless_world_def refusing_world_def calm_world_def
      new_object_def)

lemma calm_world_attach:
  "create_agent_body calm_world new_object ''open example.com'' (Some ''ws://127.0.0.1:9222/x'') 10
     ([] @ [CreateAgentCall (Some ''ws://127.0.0.1:9222/x'')]) =
   (Inr fresh_agent, new_object\<lparr>agent := Some fresh_agent\<rparr>,
    [CreateAgentCall (Some ''ws://127.0.0.1:9222/x''), BrowserSessionNew ''ws://127.0.0.1:9222/x'' False,
     AgentNew ''open example.com'' None 10 (Some (BrowserSession ''ws://127.0.0.1:9222/x'' False)),
     TokenCostInitialize])"
  by (simp add: create_agent_body_defs calm_world_def new_object_def fresh_agent_def)

text \<open>
  C1. When the hint starts with \<open>ws://\<close> and the first attempt (the \<open>try\<close> block, which
  attaches to the endpoint) raises, \<open>create_agent\<close> is entered exactly once more, with the
  hint cleared to the empty string: the result of that second attempt is the result of the
  call, an exception included, it attaches to nothing and builds the agent without a browser
  session. When the first attempt succeeds there is no second one. A hint that is absent or
  does not start with \<open>ws://\<close> never attaches, and the first thing the call does is to
  build the agent without a browser session.
\<close>

theorem create_agent_falls_back_once:
  "(\<forall>h e s1 tr1.
      hint = Some h \<and> startswith ''ws://'' h \<and>
      create_agent_body ext s t hint n (tr @ [CreateAgentCall hint]) = (Inl e, s1, tr1) \<longrightarrow>
        create_agent ext s t hint n tr =
          create_agent_body ext s1 t (Some []) n (tr1 @ [CreateAgentCall (Some [])]) \<and>
        calls (snd (snd (create_agent ext s t hint n tr))) = calls tr + 2 \<and>
        attaches tr1 = attaches tr + 1 \<and>
        attaches (snd (snd (create_agent ext s t hint n tr))) = attaches tr1 \<and>
        (\<exists>evs. snd (snd (create_agent ext s t hint n tr)) =
                 tr1 @ CreateAgentCall (Some []) # AgentNew t (llm s1) n None # evs)) \<and>
   (\<forall>h a s1 tr1.
      hint = Some h \<and> startswith ''ws://'' h \<and>
      create_agent_body ext s t hint n (tr @ [CreateAgentCall hint]) = (Inr a, s1, tr1) \<longrightarrow>
        create_agent ext s t hint n tr = (Inr a, s1, tr1) \<and> calls tr1 = calls tr + 1) \<and>
   (hint = None \<or> (\<exists>h. hint = Some h \<and> \<not> startswith ''ws://'' h) \<longrightarrow>
        attaches (snd (snd (create_agent ext s t hint n tr))) = attaches tr \<and>
        (\<exists>evs. snd (snd (create_agent ext s t hint n tr)) =
                 tr @ CreateAgentCall hint # AgentNew t (llm s) n None # evs))"
proof (intro conjI allI impI)
  fix h e s1 tr1
  assume a: "hint = Some h \<and> startswith ''ws://'' h \<and>
      create_agent_body ext s t hint n (tr @ [CreateAgentCall hint]) = (Inl e, s1, tr1)"
  then have tru: "truthy_str hint" and rem: "remote_endpoint hint = Some h"
    by (auto simp: truthy_str_def startswith_ws_nonempty remote_endpoint_ws)
  from a have first: "create_agent_body ext s t hint n (tr @ [CreateAgentCall hint]) = (Inl e, s1, tr1)"
    by blast
  show eq: "create_agent ext s t hint n tr =
      create_agent_body ext s1 t (Some []) n (tr1 @ [CreateAgentCall (Some [])])"
    by (rule create_agent_retry [OF tru first])
  obtain r2 s2 tr2 where second:
    "create_agent_body ext s1 t (Some []) n (tr1 @ [CreateAgentCall (Some [])]) = (r2, s2, tr2)"
    by (cases "create_agent_body ext s1 t (Some []) n (tr1 @ [CreateAgentCall (Some [])])")
  note f = create_agent_body_trace [OF first]
  note g = create_agent_body_trace [OF second]
  show "calls (snd (snd (create_agent ext s t hint n tr))) = calls tr + 2"
    using eq second f(1) g(1) by (simp add: calls_append counts_single)
  show "attaches tr1 = attaches tr + 1"
    using f(2) rem by (simp add: attaches_append counts_single)
  show "attaches (snd (snd (create_agent ext s t hint n tr))) = attaches tr1"
    using eq second g(2) by (simp add: attaches_append counts_single remote_endpoint_cleared)
  show "\<exists>evs. snd (snd (create_agent ext s t hint n tr)) =
                 tr1 @ CreateAgentCall (Some []) # AgentNew t (llm s1) n None # evs"
    using eq second g(3) by (simp add: remote_endpoint_cleared)
next
  fix h a s1 tr1
  assume a: "hint = Some h \<and> startswith ''ws://'' h \<and>
      create_agent_body ext s t hint n (tr @ [CreateAgentCall hint]) = (Inr a, s1, tr1)"
  then show "create_agent ext s t hint n tr = (Inr a, s1, tr1)"
    by (blast intro: create_agent_done)
  from a show "calls tr1 = calls tr + 1"
    using create_agent_body_trace(1) [of ext s t hint n "tr @ [CreateAgentCall hint]" "Inr a" s1 tr1]
    by (auto simp add: calls_append counts_single)
next
  assume a: "hint = None \<or> (\<exists>h. hint = Some h \<and> \<not> startswith ''ws://'' h)"
  then have rem: "remote_endpoint hint = None" by (rule remote_endpoint_other)
  obtain r1 s1 tr1 where first:
    "create_agent_body ext s t hint n (tr @ [CreateAgentCall hint]) = (r1, s1, tr1)"
    by (cases "create_agent_body ext s t hint n (tr @ [CreateAgentCall hint])")
  note f = create_agent_body_trace [OF first]
  from f(3) [OF rem] obtain evs1 where tr1: "tr1 = tr @ CreateAgentCall hint # AgentNew t (llm s) n None # evs1"
    by auto
  have at1: "attaches tr1 = attaches tr" using f(2) rem by (simp add: attaches_append counts_single)
  have both: "attaches (snd (snd (create_agent ext s t hint n tr))) = attaches tr \<and>
        (\<exists>evs. snd (snd (create_agent ext s t hint n tr)) =
                 tr @ CreateAgentCall hint # AgentNew t (llm s) n None # evs)"
  proof (cases "truthy_str hint \<and> (\<exists>e. r1 = Inl e)")
    case False
    then have "create_agent ext s t hint n tr = (r1, s1, tr1)"
      using first by (cases r1) (simp_all add: create_agent_no_retry create_agent_done)
    then show ?thesis using at1 tr1 by simp
  next
    case True
    then obtain e where r1: "r1 = Inl e" and tru: "truthy_str hint" by auto
    have eq: "create_agent ext s t hint n tr =
      create_agent_body ext s1 t (Some []) n (tr1 @ [CreateAgentCall (Some [])])"
      using create_agent_retry [OF tru] first r1 by simp
    obtain r2 s2 tr2 where second:
      "create_agent_body ext s1 t (Some []) n (tr1 @ [CreateAgentCall (Some [])]) = (r2, s2, tr2)"
      by (cases "create_agent_body ext s1 t (Some []) n (tr1 @ [CreateAgentCall (Some [])])")
    note g = create_agent_body_trace [OF second]
    from g(3) obtain evs2 where "tr2 = (tr1 @ [CreateAgentCall (Some [])]) @ AgentNew t (llm s1) n None # evs2"
      by (auto simp: remote_endpoint_cleared)
    moreover have "attaches tr2 = attaches tr1"
      using g(2) by (simp add: attaches_append counts_single remote_endpoint_cleared)
    ultimately show ?thesis using eq second at1 tr1 by simp
  qed
  from both show "attaches (snd (snd (create_agent ext s t hint n tr))) = attaches tr"
    by blast
  from both show "\<exists>evs. snd (snd (create_agent ext s t hint n tr)) =
                 tr @ CreateAgentCall hint # AgentNew t (llm s) n None # evs"
    by blast
qed

theorem create_agent_falls_back_once_witness:
  "calls (snd (snd (create_agent refusing_world new_object ''open example.com''
                      (Some ''ws://bad-host/x'') 10 []))) = 2 \<and>
   attaches (snd (snd (create_agent refusing_world new_object ''open example.com''
                      (Some ''ws://bad-host/x'') 10 []))) = 1 \<and>
   create_agent hopeless_world new_object ''open example.com'' (Some ''ws://bad-host/x'') 10 [] =
     (Inl (Exn OtherError ''no browser''), new_object,
      [CreateAgentCall (Some ''ws://bad-host/x''), BrowserSessionNew ''ws://bad-host/x'' False,
       CreateAgentCall (Some []), AgentNew ''open example.com'' None 10 None]) \<and>
   create_agent calm_world new_object ''open example.com'' (Some ''ws://127.0.0.1:9222/x'') 10 [] =
     (Inr fresh_agent, new_object\<lparr>agent := Some fresh_agent\<rparr>,
      [CreateAgentCall (Some ''ws://127.0.0.1:9222/x''), BrowserSessionNew ''ws://127.0.0.1:9222/x'' False,
       AgentNew ''open example.com'' None 10 (Some (BrowserSession ''ws://127.0.0.1:9222/x'' False)),
       TokenCostInitialize]) \<and>
   attaches (snd (snd (create_agent calm_world new_object ''open example.com'' None 10 []))) = 0 \<and>
   attaches (snd (snd (create_agent calm_world new_object ''open example.com'' (Some ''context_123'') 10 []))) = 0"
proof -
  have ws1: "startswith ''ws://'' ''ws://bad-host/x''" and ws2: "startswith ''ws://'' ''ws://127.0.0.1:9222/x''"
    and ws3: "\<not> startswith ''ws://'' ''context_123''"
    by (simp_all add: startswith_def)
  have zero: "calls [] = 0" "attaches [] = 0"
    by (simp_all add: calls_def attaches_def)
  note a = create_agent_falls_back_once [of "Some ''ws://bad-host/x''" refusing_world new_object
      "''open example.com''" 10 "[]"]
  note b = create_agent_falls_back_once [of "Some ''ws://bad-host/x''" hopeless_world new_object
      "''open example.com''" 10 "[]"]
  note c = create_agent_falls_back_once [of "Some ''ws://127.0.0.1:9222/x''" calm_world new_object
      "''open example.com''" 10 "[]"]
  note d = create_agent_falls_back_once [of None calm_world new_object "''open example.com''" 10 "[]"]
  note e = create_agent_falls_back_once [of "Some ''context_123''" calm_world new_object
      "''open example.com''" 10 "[]"]
  have 1: "calls (snd (snd (create_agent refusing_world new_object ''open example.com''
                      (Some ''ws://bad-host/x'') 10 []))) = 2"
    and 2: "attaches (snd (snd (create_agent refusing_world new_object ''open example.com''
                      (Some ''ws://bad-host/x'') 10 []))) = 1"
    using a ws1 refusing_world_first zero by (auto simp: attaches_def)
  have 3: "create_agent hopeless_world new_object ''open example.com'' (Some ''ws://bad-host/x'') 10 [] =
     (Inl (Exn OtherError ''no browser''), new_object,
      [CreateAgentCall (Some ''ws://bad-host/x''), BrowserSessionNew ''ws://bad-host/x'' False,
       CreateAgentCall (Some []), AgentNew ''open example.com'' None 10 None])"
    using b ws1 hopeless_world_first hopeless_world_second by auto
  have 4: "create_agent calm_world new_object ''open example.com'' (Some ''ws://127.0.0.1:9222/x'') 10 [] =
     (Inr fresh_agent, new_object\<lparr>agent := Some fresh_agent\<rparr>,
      [CreateAgentCall (Some ''ws://127.0.0.1:9222/x''), BrowserSessionNew ''ws://127.0.0.1:9222/x'' False,
       AgentNew ''open example.com'' None 10 (Some (BrowserSession ''ws://127.0.0.1:9222/x'' False)),
       TokenCostInitialize])"
    using c ws2 calm_world_attach by auto
  have 5: "attaches (snd (snd (create_agent calm_world new_object ''open example.com'' None 10 []))) = 0"
    using d zero by simp
  have 6: "attaches (snd (snd (create_agent calm_world new_object ''open example.com'' (Some ''context_123'') 10 []))) = 0"
    using e ws3 zero by simp
  from 1 2 3 4 5 6 show ?thesis by blast
qed

subsection \<open>Provider resolution\<close>

lemma load_environment_fields:
  assumes "load_environment ext s' = Inr s0"
  shows "azure_api_key s0 = x_getenv ext ''AZURE_OPENAI_API_KEY''"
    and "azure_endpoint s0 = x_getenv ext ''AZURE_OPENAI_ENDPOINT''"
    and "azure_deployment s0 = getenv_or ext ''AZURE_OPENAI_DEPLOYMENT_NAME'' ''gpt-4.1''"
    and "openai_api_key s0 = x_getenv ext ''OPENAI_API_KEY''"
    and "google_api_key s0 = x_getenv ext ''GOOGLE_API_KEY''"
    and "llm_provider s0 = py_lower (getenv_or ext ''LLM_PROVIDER'' ''azure'')"
    and "llm s0 = llm s'" and "agent s0 = agent s'"
  using assms by (auto simp: load_environment_def split: sum.splits)

lemma py_lower_azure: "py_lower ''azure'' = ''azure''"
  by code_simp

lemma init_deferred:
  "load_environment ext new_object = Inr s0 \<Longrightarrow>
   init ext True dh = Inr (s0\<lparr>llm := None, disable_highlighting := dh, agent := None\<rparr>)"
  by (simp add: init_def)

lemma init_eager:
  "load_environment ext new_object = Inr s0 \<Longrightarrow>
   init ext False dh =
     (case setup_llm (s0\<lparr>llm := None, disable_highlighting := dh\<rparr>) of
        Inl e \<Rightarrow> Inl e | Inr s2 \<Rightarrow> Inr (s2\<lparr>agent := None\<rparr>))"
  by (simp add: init_def)

lemma setup_llm_none:
  "\<not> azure_configured s \<Longrightarrow> \<not> truthy_str (openai_api_key s) \<Longrightarrow>
   \<not> truthy_str (google_api_key s) \<Longrightarrow> llm s = None \<Longrightarrow> setup_llm s = Inl no_llm_error"
  by (simp add: setup_llm_def)

lemma main_local:
  "2 \<le> length argv \<Longrightarrow> parse_args ext (tl argv) = Inr (Some req) \<Longrightarrow> \<not> arg_use_api req \<Longrightarrow>
   main ext argv = local_mode ext req []"
  by (simp add: main_def)

lemma main_api:
  "2 \<le> length argv \<Longrightarrow> parse_args ext (tl argv) = Inr (Some req) \<Longrightarrow> arg_use_api req \<Longrightarrow>
   main ext argv = api_mode ext req []"
  by (simp add: main_def)

text \<open>
  C5. With no provider resolved yet, \<open>setup_llm\<close> selects the preferred provider when its
  credentials are all non-empty; when the preferred provider is not ready (an unknown
  preference, or incomplete credentials) it selects Azure if Azure's credentials are
  complete; when no provider has complete credentials it raises. An unset \<open>LLM_PROVIDER\<close>
  is the preference \<open>azure\<close>. In local mode the exception leaves \<open>main\<close> from the
  constructor of line 590, before any event: the process ends with status 1.
\<close>

theorem setup_llm_resolution:
  "(llm s = None \<longrightarrow>
      (llm_provider s = ''azure'' \<and> azure_configured s \<longrightarrow>
         setup_llm s = Inr (s\<lparr>llm := Some (azure_llm s)\<rparr>)) \<and>
      (llm_provider s = ''openai'' \<and> truthy_str (openai_api_key s) \<longrightarrow>
         setup_llm s = Inr (s\<lparr>llm := Some (ChatOpenAI ''gpt-4o'' (openai_api_key s) (7 / 10))\<rparr>)) \<and>
      (llm_provider s = ''google'' \<and> truthy_str (google_api_key s) \<longrightarrow>
         setup_llm s = Inr (s\<lparr>llm := Some (ChatGoogle ''gemini-2.0-flash'' (google_api_key s) (7 / 10))\<rparr>)) \<and>
      (\<not> preferred_ready s \<and> azure_configured s \<longrightarrow>
         setup_llm s = Inr (s\<lparr>llm := Some (azure_llm s)\<rparr>)) \<and>
      (\<not> azure_configured s \<and> \<not> truthy_str (openai_api_key s) \<and> \<not> truthy_str (google_api_key s) \<longrightarrow>
         setup_llm s = Inl no_llm_error)) \<and>
   (load_environment ext new_object = Inr s0 \<longrightarrow>
      (x_getenv ext ''LLM_PROVIDER'' = None \<longrightarrow> llm_provider s0 = ''azure'') \<and>
      (azure_configured s0 \<longleftrightarrow>
         truthy_str (x_getenv ext ''AZURE_OPENAI_API_KEY'') \<and>
         truthy_str (x_getenv ext ''AZURE_OPENAI_ENDPOINT'') \<and>
         x_getenv ext ''AZURE_OPENAI_DEPLOYMENT_NAME'' \<noteq> Some []) \<and>
      openai_api_key s0 = x_getenv ext ''OPENAI_API_KEY'' \<and>
      google_api_key s0 = x_getenv ext ''GOOGLE_API_KEY'' \<and>
      (2 \<le> length argv \<and> parse_args ext (tl argv) = Inr (Some req) \<and> \<not> arg_use_api req \<and>
       \<not> azure_configured s0 \<and> \<not> truthy_str (openai_api_key s0) \<and>
       \<not> truthy_str (google_api_key s0) \<longrightarrow>
         main ext argv = (Uncaught no_llm_error, []) \<and> exit_status (fst (main ext argv)) = 1))"
proof (intro conjI impI)
  assume l: "llm s = None"
  show "setup_llm s = Inr (s\<lparr>llm := Some (azure_llm s)\<rparr>)"
    if "llm_provider s = ''azure'' \<and> azure_configured s"
    using that l by (simp add: setup_llm_def)
  show "setup_llm s = Inr (s\<lparr>llm := Some (ChatOpenAI ''gpt-4o'' (openai_api_key s) (7 / 10))\<rparr>)"
    if "llm_provider s = ''openai'' \<and> truthy_str (openai_api_key s)"
    using that l by (simp add: setup_llm_def)
  show "setup_llm s = Inr (s\<lparr>llm := Some (ChatGoogle ''gemini-2.0-flash'' (google_api_key s) (7 / 10))\<rparr>)"
    if "llm_provider s = ''google'' \<and> truthy_str (google_api_key s)"
    using that l by (simp add: setup_llm_def)
  show "setup_llm s = Inr (s\<lparr>llm := Some (azure_llm s)\<rparr>)"
    if "\<not> preferred_ready s \<and> azure_configured s"
    using that l by (auto simp: setup_llm_def preferred_ready_def)
  show "setup_llm s = Inl no_llm_error"
    if "\<not> azure_configured s \<and> \<not> truthy_str (openai_api_key s) \<and> \<not> truthy_str (google_api_key s)"
    using that l by (simp add: setup_llm_none)
next
  assume le: "load_environment ext new_object = Inr s0"
  note f = load_environment_fields [OF le]
  show "llm_provider s0 = ''azure''" if "x_getenv ext ''LLM_PROVIDER'' = None"
    using that f(6) by (simp add: getenv_or_def py_lower_azure)
  show "azure_configured s0 \<longleftrightarrow>
         truthy_str (x_getenv ext ''AZURE_OPENAI_API_KEY'') \<and>
         truthy_str (x_getenv ext ''AZURE_OPENAI_ENDPOINT'') \<and>
         x_getenv ext ''AZURE_OPENAI_DEPLOYMENT_NAME'' \<noteq> Some []"
    using f(1,2,3) by (auto simp: azure_configured_def getenv_or_def split: option.splits)
  show "openai_api_key s0 = x_getenv ext ''OPENAI_API_KEY''" by (rule f(4))
  show "google_api_key s0 = x_getenv ext ''GOOGLE_API_KEY''" by (rule f(5))
  assume m: "2 \<le> length argv \<and> parse_args ext (tl argv) = Inr (Some req) \<and> \<not> arg_use_api req \<and>
       \<not> azure_configured s0 \<and> \<not> truthy_str (openai_api_key s0) \<and>
       \<not> truthy_str (google_api_key s0)"
  have "setup_llm (s0\<lparr>llm := None, disable_highlighting := arg_disable_highlighting req\<rparr>) = Inl no_llm_error"
    using m by (intro setup_llm_none) (simp_all add: azure_configured_def)
  then have "init ext False (arg_disable_highlighting req) = Inl no_llm_error"
    using init_eager [OF le] by simp
  then have "local_mode ext req [] = (Uncaught no_llm_error, [])"
    by (simp add: local_mode_def)
  then show main: "main ext argv = (Uncaught no_llm_error, [])"
    using m main_local by simp
  show "exit_status (fst (main ext argv)) = 1"
    by (simp add: main)
qed

lemma parse_simple: "parse_args ext [''open example.com''] = Inr (Some simple_request)"
proof -
  have "strip_flags (map sanitize_token [''open example.com'']) (False, False, []) =
          (False, False, [''open example.com''])"
    by code_simp
  moreover have "\<not> py_in ''  '' ''open example.com''"
    by code_simp
  ultimately show ?thesis
    by (simp add: parse_args_def resplit_def simple_request_def)
qed

lemma parse_simple_api:
  "parse_args ext [''open example.com'', ''--api''] = Inr (Some (simple_request\<lparr>arg_use_api := True\<rparr>))"
proof -
  have "strip_flags (map sanitize_token [''open example.com'', ''--api'']) (False, False, []) =
          (True, False, [''open example.com''])"
    by code_simp
  moreover have "\<not> py_in ''  '' ''open example.com''"
    by code_simp
  ultimately show ?thesis
    by (simp add: parse_args_def resplit_def simple_request_def)
qed

lemma decimal_9222: "decimal_int ''9222'' = Inr 9222"
  by code_simp

lemma py_lower_true: "py_lower ''true'' = ''true''"
  by code_simp

lemma load_calm: "load_environment calm_world new_object = Inr calm_self"
  by (simp add: load_environment_def calm_world_def getenv_or_def azure_env_def decimal_9222
      py_lower_azure py_lower_true new_object_def calm_self_def)

lemma load_bare: "load_environment bare_world new_object = Inr bare_self"
  by (simp add: load_environment_def bare_world_def polling_world_def calm_world_def getenv_or_def
      decimal_9222 py_lower_azure py_lower_true new_object_def calm_self_def bare_self_def)

theorem setup_llm_resolution_witness:
  "setup_llm calm_self =
     Inr (calm_self\<lparr>llm := Some (ChatAzureOpenAI ''gpt-4.1'' (Some ''key'')
            (Some ''https://example.openai.azure.com'') ''gpt-4.1'' ''2024-08-01-preview'' (7 / 10))\<rparr>) \<and>
   setup_llm (calm_self\<lparr>llm_provider := ''openai'', openai_api_key := Some ''sk-1''\<rparr>) =
     Inr (calm_self\<lparr>llm_provider := ''openai'', openai_api_key := Some ''sk-1'',
                     llm := Some (ChatOpenAI ''gpt-4o'' (Some ''sk-1'') (7 / 10))\<rparr>) \<and>
   setup_llm (calm_self\<lparr>llm_provider := ''google'', google_api_key := Some ''g-1''\<rparr>) =
     Inr (calm_self\<lparr>llm_provider := ''google'', google_api_key := Some ''g-1'',
                     llm := Some (ChatGoogle ''gemini-2.0-flash'' (Some ''g-1'') (7 / 10))\<rparr>) \<and>
   setup_llm (calm_self\<lparr>llm_provider := ''openai''\<rparr>) =
     Inr (calm_self\<lparr>llm_provider := ''openai'',
                     llm := Some (ChatAzureOpenAI ''gpt-4.1'' (Some ''key'')
            (Some ''https://example.openai.azure.com'') ''gpt-4.1'' ''2024-08-01-preview'' (7 / 10))\<rparr>) \<and>
   setup_llm bare_self = Inl no_llm_error \<and>
   llm_provider bare_self = ''azure'' \<and>
   main bare_world [''agent.py'', ''open example.com''] = (Uncaught no_llm_error, []) \<and>
   exit_status (fst (main bare_world [''agent.py'', ''open example.com''])) = 1"
proof -
  note a = setup_llm_resolution [of calm_self bare_world bare_self
      "[''agent.py'', ''open example.com'']" simple_request]
  note b = setup_llm_resolution [of "calm_self\<lparr>llm_provider := ''openai'', openai_api_key := Some ''sk-1''\<rparr>"
      bare_world bare_self "[''agent.py'', ''open example.com'']" simple_request]
  note c = setup_llm_resolution [of "calm_self\<lparr>llm_provider := ''google'', google_api_key := Some ''g-1''\<rparr>"
      bare_world bare_self "[''agent.py'', ''open example.com'']" simple_request]
  note d = setup_llm_resolution [of "calm_self\<lparr>llm_provider := ''openai''\<rparr>"
      bare_world bare_self "[''agent.py'', ''open example.com'']" simple_request]
  note e = setup_llm_resolution [of bare_self bare_world bare_self
      "[''agent.py'', ''open example.com'']" simple_request]
  have env: "x_getenv bare_world ''LLM_PROVIDER'' = None"
    by (simp add: bare_world_def)
  have 1: "setup_llm calm_self =
     Inr (calm_self\<lparr>llm := Some (ChatAzureOpenAI ''gpt-4.1'' (Some ''key'')
            (Some ''https://example.openai.azure.com'') ''gpt-4.1'' ''2024-08-01-preview'' (7 / 10))\<rparr>)"
    using a by (simp add: calm_self_def azure_configured_def azure_llm_def truthy_str_def)
  have 2: "setup_llm (calm_self\<lparr>llm_provider := ''openai'', openai_api_key := Some ''sk-1''\<rparr>) =
     Inr (calm_self\<lparr>llm_provider := ''openai'', openai_api_key := Some ''sk-1'',
                     llm := Some (ChatOpenAI ''gpt-4o'' (Some ''sk-1'') (7 / 10))\<rparr>)"
    using b by (simp add: calm_self_def truthy_str_def)
  have 3: "setup_llm (calm_self\<lparr>llm_provider := ''google'', google_api_key := Some ''g-1''\<rparr>) =
     Inr (calm_self\<lparr>llm_provider := ''google'', google_api_key := Some ''g-1'',
                     llm := Some (ChatGoogle ''gemini-2.0-flash'' (Some ''g-1'') (7 / 10))\<rparr>)"
    using c by (simp add: calm_self_def truthy_str_def)
  have 4: "setup_llm (calm_self\<lparr>llm_provider := ''openai''\<rparr>) =
     Inr (calm_self\<lparr>llm_provider := ''openai'',
                     llm := Some (ChatAzureOpenAI ''gpt-4.1'' (Some ''key'')
            (Some ''https://example.openai.azure.com'') ''gpt-4.1'' ''2024-08-01-preview'' (7 / 10))\<rparr>)"
    using d
    by (simp add: calm_self_def azure_configured_def azure_llm_def truthy_str_def preferred_ready_def)
  have 5: "setup_llm bare_self = Inl no_llm_error"
    using e by (simp add: bare_self_def calm_self_def azure_configured_def truthy_str_def)
  have 6: "llm_provider bare_self = ''azure''"
    using e load_bare env by simp
  have 7: "main bare_world [''agent.py'', ''open example.com''] = (Uncaught no_llm_error, []) \<and>
     exit_status (fst (main bare_world [''agent.py'', ''open example.com''])) = 1"
    using e load_bare parse_simple [of bare_world]
    by (simp add: bare_self_def calm_self_def azure_configured_def truthy_str_def simple_request_def)
  from 1 2 3 4 5 6 7 show ?thesis by blast
qed

subsection \<open>main: the remote path and the exit status\<close>

lemma create_session_trace:
  "snd (create_session_via_api ext tr) = tr @ [HttpPost create_url (JObj [])]"
  by (simp add: create_session_via_api_def create_session_body_def create_url_def Let_def
      split: sum.splits prod.splits)

lemma create_session_failed:
  "(\<exists>e. x_http ext (tr @ [HttpPost create_url (JObj [])]) = Inl e) \<or>
   (\<exists>r. x_http ext (tr @ [HttpPost create_url (JObj [])]) = Inr r \<and> status r \<noteq> 200) \<Longrightarrow>
   create_session_via_api ext tr = (JNull, tr @ [HttpPost create_url (JObj [])])"
  by (auto simp: create_session_via_api_def create_session_body_def create_url_def Let_def
      split: sum.splits prod.splits)

lemma execute_via_api_trace:
  "snd (execute_task_via_api ext sid t n tr) =
     tr @ [HttpPost ''http://localhost:3000/api/browser-use/execute'' (execute_payload sid t n)]"
  by (simp add: execute_task_via_api_def execute_via_api_body_def Let_def
      split: sum.splits prod.splits)

lemma monitor_trace:
  "snd (monitor_task_progress ext sid tid tr) = tr @ [HttpGet (status_url ext tid)]"
  by (simp add: monitor_task_progress_def monitor_body_def Let_def split: sum.splits prod.splits)

lemma monitor_if_started_trace:
  "\<exists>evs. snd (monitor_if_started ext sid result tr) = tr @ evs"
proof (cases "py_get result ''taskId''")
  case (Inl e)
  then show ?thesis by (simp add: monitor_if_started_def)
next
  case (Inr tid)
  then show ?thesis
    using monitor_trace [of ext sid tid tr]
    by (cases "monitor_task_progress ext sid tid tr") (auto simp: monitor_if_started_def)
qed

lemma monitor_if_started_get:
  "py_get result ''taskId'' = Inr tid \<Longrightarrow> truthy tid \<Longrightarrow>
   monitor_if_started ext sid result tr = (Inr (), tr @ [HttpGet (status_url ext tid)])"
  using monitor_trace [of ext sid tid tr]
  by (cases "monitor_task_progress ext sid tid tr") (simp add: monitor_if_started_def)

lemma api_body_polls_twice:
  "create_session_via_api ext tr = (sid, tr1) \<Longrightarrow> truthy sid \<Longrightarrow>
   execute_task_via_api ext sid t n tr1 = (result, tr2) \<Longrightarrow> truthy result \<Longrightarrow>
   py_get result ''taskId'' = Inr tid \<Longrightarrow> truthy tid \<Longrightarrow>
   api_body ext t n tr =
     (Inr (), tr2 @ [HttpGet (status_url ext tid), HttpGet (status_url ext tid), PrintJson result])"
  by (simp add: api_body_def monitor_if_started_get)

lemma api_body_trace:
  "\<exists>evs. snd (api_body ext t n tr) = tr @ HttpPost create_url (JObj []) # evs"
proof -
  obtain sid tr1 where c: "create_session_via_api ext tr = (sid, tr1)"
    by (cases "create_session_via_api ext tr")
  then have tr1: "tr1 = tr @ [HttpPost create_url (JObj [])]"
    using create_session_trace [of ext tr] by simp
  obtain result tr2 where x: "execute_task_via_api ext sid t n tr1 = (result, tr2)"
    by (cases "execute_task_via_api ext sid t n tr1")
  then have tr2: "\<exists>evs. tr2 = tr1 @ evs"
    using execute_via_api_trace [of ext sid t n tr1] by simp
  obtain m1 tr3 where m1: "monitor_if_started ext sid result tr2 = (m1, tr3)"
    by (cases "monitor_if_started ext sid result tr2")
  then have tr3: "\<exists>evs. tr3 = tr2 @ evs"
    using monitor_if_started_trace [of ext sid result tr2] by simp
  obtain m2 tr4 where m2: "monitor_if_started ext sid result tr3 = (m2, tr4)"
    by (cases "monitor_if_started ext sid result tr3")
  then have tr4: "\<exists>evs. tr4 = tr3 @ evs"
    using monitor_if_started_trace [of ext sid result tr3] by simp
  show ?thesis
    using c x m1 m2 tr1 tr2 tr3 tr4
    by (auto simp: api_body_def split: sum.splits)
qed

lemma api_mode_runs:
  "init ext True (arg_disable_highlighting req) = Inr s \<Longrightarrow>
   api_mode ext req tr = (Returned, snd (api_body ext (arg_task req) (arg_max_steps req) tr))"
  by (cases "api_body ext (arg_task req) (arg_max_steps req) tr")
     (auto simp: api_mode_def split: sum.splits)

lemma api_mode_uncaught:
  "init ext True (arg_disable_highlighting req) = Inl e \<Longrightarrow> api_mode ext req tr = (Uncaught e, tr)"
  by (simp add: api_mode_def)

lemma local_mode_uncaught:
  "init ext False (arg_disable_highlighting req) = Inl e \<Longrightarrow> local_mode ext req tr = (Uncaught e, tr)"
  by (simp add: local_mode_def)

lemma local_mode_runs:
  assumes "init ext False (arg_disable_highlighting req) = Inr s"
  shows "\<exists>d s1 tr1.
      execute_task ext s (arg_task req) (arg_browser_context_id req) (arg_max_steps req) tr =
        (Inr d, s1, tr1) \<and>
      local_mode ext req tr = (Returned, cleanup ext s1 (tr1 @ [PrintJson d]))"
  using execute_task_cases [of ext s "arg_task req" "arg_browser_context_id req" "arg_max_steps req" tr]
    assms
  by (auto simp: local_mode_def)

lemma main_outcome:
  "(\<exists>e. main ext argv = (Uncaught e, []) \<and> startup_raises ext argv e) \<or>
   (fst (main ext argv) = Returned \<and> (\<forall>e. \<not> startup_raises ext argv e))"
proof (cases "length argv < 2")
  case True
  then show ?thesis by (simp add: main_def startup_raises_def)
next
  case False
  then have len: "2 \<le> length argv" by simp
  show ?thesis
  proof (cases "parse_args ext (tl argv)")
    case (Inl e)
    then show ?thesis using len by (simp add: main_def startup_raises_def)
  next
    case (Inr ro)
    show ?thesis
    proof (cases ro)
      case None
      then show ?thesis using len Inr by (simp add: main_def startup_raises_def)
    next
      case (Some req)
      show ?thesis
      proof (cases "init ext (arg_use_api req) (arg_disable_highlighting req)")
        case (Inl e)
        then have "main ext argv = (Uncaught e, [])"
          using len Inr Some
          by (cases "arg_use_api req") (simp_all add: main_def api_mode_uncaught local_mode_uncaught)
        then show ?thesis using len Inr Some Inl by (auto simp: startup_raises_def)
      next
        case (Inr s)
        have "fst (main ext argv) = Returned"
        proof (cases "arg_use_api req")
          case True
          then show ?thesis
            using len \<open>parse_args ext (tl argv) = Inr ro\<close> Some Inr api_mode_runs [of ext req s "[]"]
            by (simp add: main_def)
        next
          case False
          then show ?thesis
            using len \<open>parse_args ext (tl argv) = Inr ro\<close> Some Inr local_mode_runs [of ext req s "[]"]
            by (auto simp: main_def)
        qed
        then show ?thesis
          using len \<open>parse_args ext (tl argv) = Inr ro\<close> Some Inr by (simp add: startup_raises_def)
      qed
    qed
  qed
qed

text \<open>
  C8, as amended. \<open>main\<close> never reaches the \<open>sys.exit(1)\<close> of line 618, since
  \<open>execute_task\<close> returns a result for every failure. The exit status is 0 or 1; it is 1
  exactly when an exception leaves \<open>main\<close> before execution starts (\<open>int\<close> rejecting
  \<open>max_steps\<close> or \<open>BROWSER_PORT\<close>, or provider resolution failing in local mode); and
  whenever a result document is printed, with \<open>success\<close> true or false, the status is 0.
\<close>

theorem exit_status_of_main:
  "(\<forall>k. fst (main ext argv) \<noteq> SysExit k) \<and>
   (exit_status (fst (main ext argv)) = 0 \<or> exit_status (fst (main ext argv)) = 1) \<and>
   (exit_status (fst (main ext argv)) = 1 \<longleftrightarrow> (\<exists>e. startup_raises ext argv e)) \<and>
   (printed (snd (main ext argv)) \<noteq> [] \<longrightarrow> exit_status (fst (main ext argv)) = 0)"
  using main_outcome [of ext argv] by auto

text \<open>
  C9. With \<open>--api\<close> the agent object is built with \<open>defer_llm=True\<close>: whatever the
  credentials in the environment, once \<open>load_environment\<close> has read it the constructor
  returns an object whose \<open>llm\<close> is \<open>None\<close>, raising nothing, and \<open>main\<close> goes on to the
  session-creation request and returns.
\<close>

theorem api_mode_defers_llm:
  "2 \<le> length argv \<and> parse_args ext (tl argv) = Inr (Some req) \<and> arg_use_api req \<and>
   load_environment ext new_object = Inr s0 \<longrightarrow>
     init ext True (arg_disable_highlighting req) =
       Inr (s0\<lparr>llm := None, disable_highlighting := arg_disable_highlighting req, agent := None\<rparr>) \<and>
     fst (main ext argv) = Returned \<and>
     (\<exists>evs. snd (main ext argv) = HttpPost create_url (JObj []) # evs)"
proof (intro impI)
  assume a: "2 \<le> length argv \<and> parse_args ext (tl argv) = Inr (Some req) \<and> arg_use_api req \<and>
   load_environment ext new_object = Inr s0"
  then have i: "init ext True (arg_disable_highlighting req) =
       Inr (s0\<lparr>llm := None, disable_highlighting := arg_disable_highlighting req, agent := None\<rparr>)"
    by (simp add: init_deferred)
  have m: "main ext argv = api_mode ext req []"
    using a by (simp add: main_api)
  show "init ext True (arg_disable_highlighting req) =
       Inr (s0\<lparr>llm := None, disable_highlighting := arg_disable_highlighting req, agent := None\<rparr>) \<and>
     fst (main ext argv) = Returned \<and>
     (\<exists>evs. snd (main ext argv) = HttpPost create_url (JObj []) # evs)"
    using i m api_mode_runs [OF i, of "[]"] api_body_trace [of ext "arg_task req" "arg_max_steps req" "[]"]
    by simp
qed

text \<open>
  C3, as amended. In API mode, when the session-creation request raises or is answered
  with a status other than 200, \<open>main\<close> returns at once: that request is the only event
  of the run, so no task is submitted and the creation is not repeated; no result document
  is printed, and the exit status is 0.
\<close>

theorem session_creation_failure_stops:
  "2 \<le> length argv \<and> parse_args ext (tl argv) = Inr (Some req) \<and> arg_use_api req \<and>
   load_environment ext new_object = Inr s0 \<and>
   ((\<exists>e. x_http ext [HttpPost create_url (JObj [])] = Inl e) \<or>
    (\<exists>r. x_http ext [HttpPost create_url (JObj [])] = Inr r \<and> status r \<noteq> 200)) \<longrightarrow>
     main ext argv = (Returned, [HttpPost create_url (JObj [])]) \<and>
     printed (snd (main ext argv)) = [] \<and>
     exit_status (fst (main ext argv)) = 0"
proof (intro impI)
  assume a: "2 \<le> length argv \<and> parse_args ext (tl argv) = Inr (Some req) \<and> arg_use_api req \<and>
   load_environment ext new_object = Inr s0 \<and>
   ((\<exists>e. x_http ext [HttpPost create_url (JObj [])] = Inl e) \<or>
    (\<exists>r. x_http ext [HttpPost create_url (JObj [])] = Inr r \<and> status r \<noteq> 200))"
  then have i: "init ext True (arg_disable_highlighting req) =
       Inr (s0\<lparr>llm := None, disable_highlighting := arg_disable_highlighting req, agent := None\<rparr>)"
    by (simp add: init_deferred)
  have m: "main ext argv = api_mode ext req []"
    using a by (simp add: main_api)
  have c: "create_session_via_api ext [] = (JNull, [HttpPost create_url (JObj [])])"
    using a create_session_failed [of ext "[]"] by simp
  have "api_body ext (arg_task req) (arg_max_steps req) [] = (Inr (), [HttpPost create_url (JObj [])])"
    by (simp add: api_body_def c)
  then have "main ext argv = (Returned, [HttpPost create_url (JObj [])])"
    using m api_mode_runs [OF i, of "[]"] by simp
  then show "main ext argv = (Returned, [HttpPost create_url (JObj [])]) \<and>
     printed (snd (main ext argv)) = [] \<and>
     exit_status (fst (main ext argv)) = 0"
    by simp
qed

text \<open>
  C3 as stated fails: with status 500 for the session creation, nothing with
  \<open>success:false\<close> is printed; the failure is reported by a diagnostic message only.
\<close>

theorem session_creation_500_prints_no_result:
  "main http500_world [''agent.py'', ''open example.com'', ''--api''] =
     (Returned, [HttpPost ''http://localhost:3000/api/sessions/create'' (JObj [])]) \<and>
   printed (snd (main http500_world [''agent.py'', ''open example.com'', ''--api''])) = []"
  by code_simp

text \<open>
  C8 as stated fails: a local task whose run raises is printed with \<open>success\<close> false and
  the process ends with status 0, and so does an API run whose session creation fails.
\<close>

theorem failed_task_exits_zero:
  "exit_status (fst (main crash_world [''agent.py'', ''open example.com''])) = 0 \<and>
   printed (snd (main crash_world [''agent.py'', ''open example.com''])) =
     [JObj [(''success'', JBool False), (''task'', JStr ''open example.com''),
            (''error'', JStr ''browser crashed''), (''llm_provider'', JStr ''azure''),
            (''browser_context_id'', JNull)]] \<and>
   exit_status (fst (main http500_world [''agent.py'', ''open example.com'', ''--api''])) = 0"
  by code_simp

lemma load_http500: "load_environment http500_world new_object = Inr bare_self"
  by (simp add: load_environment_def http500_world_def bare_world_def polling_world_def
      calm_world_def getenv_or_def decimal_9222 py_lower_azure py_lower_true new_object_def
      calm_self_def bare_self_def)

lemma load_offline: "load_environment offline_world new_object = Inr bare_self"
  by (simp add: load_environment_def offline_world_def bare_world_def polling_world_def
      calm_world_def getenv_or_def decimal_9222 py_lower_azure py_lower_true new_object_def
      calm_self_def bare_self_def)

theorem api_mode_defers_llm_witness:
  "init bare_world True False =
     Inr (bare_self\<lparr>llm := None, disable_highlighting := False, agent := None\<rparr>) \<and>
   fst (main bare_world [''agent.py'', ''open example.com'', ''--api'']) = Returned \<and>
   take 1 (snd (main bare_world [''agent.py'', ''open example.com'', ''--api''])) =
     [HttpPost create_url (JObj [])] \<and>
   setup_llm bare_self = Inl no_llm_error"
proof -
  have none: "setup_llm bare_self = Inl no_llm_error"
    by (simp add: setup_llm_def bare_self_def calm_self_def azure_configured_def truthy_str_def)
  show ?thesis
    using api_mode_defers_llm [of "[''agent.py'', ''open example.com'', ''--api'']" bare_world
        "simple_request\<lparr>arg_use_api := True\<rparr>" bare_self]
      load_bare parse_simple_api [of bare_world] none
    by (auto simp: simple_request_def)
qed

theorem session_creation_failure_stops_witness:
  "main http500_world [''agent.py'', ''open example.com'', ''--api''] =
     (Returned, [HttpPost create_url (JObj [])]) \<and>
   main offline_world [''agent.py'', ''open example.com'', ''--api''] =
     (Returned, [HttpPost create_url (JObj [])])"
proof -
  have a: "x_http http500_world [HttpPost create_url (JObj [])] =
             Inr (error_response 500 ''Internal Server Error'') \<and>
           status (error_response 500 ''Internal Server Error'') \<noteq> 200"
    by (simp add: http500_world_def error_response_def)
  have b: "x_http offline_world [HttpPost create_url (JObj [])] =
             Inl (Exn OtherError ''Cannot connect to host'')"
    by (simp add: offline_world_def)
  have 1: "main http500_world [''agent.py'', ''open example.com'', ''--api''] =
     (Returned, [HttpPost create_url (JObj [])])"
    using session_creation_failure_stops [of "[''agent.py'', ''open example.com'', ''--api'']"
        http500_world "simple_request\<lparr>arg_use_api := True\<rparr>" bare_self]
      load_http500 parse_simple_api [of http500_world] a
    by (simp add: simple_request_def)
  have 2: "main offline_world [''agent.py'', ''open example.com'', ''--api''] =
     (Returned, [HttpPost create_url (JObj [])])"
    using session_creation_failure_stops [of "[''agent.py'', ''open example.com'', ''--api'']"
        offline_world "simple_request\<lparr>arg_use_api := True\<rparr>" bare_self]
      load_offline parse_simple_api [of offline_world] b
    by (simp add: simple_request_def)
  from 1 2 show ?thesis by blast
qed

lemma parse_many:
  "parse_args calm_world [''open example.com'', ''many''] = Inl invalid_literal"
proof -
  have "strip_flags (map sanitize_token [''open example.com'', ''many'']) (False, False, []) =
          (False, False, [''open example.com'', ''many''])"
    by code_simp
  moreover have "decimal_int ''many'' = Inl invalid_literal"
    by code_simp
  ultimately show ?thesis
    by (simp add: parse_args_def resplit_def calm_world_def)
qed

theorem exit_status_of_main_witness:
  "exit_status (fst (main crash_world [''agent.py'', ''open example.com''])) = 0 \<and>
   exit_status (fst (main calm_world [''agent.py'', ''open example.com'', ''many''])) = 1"
proof -
  have p: "printed (snd (main crash_world [''agent.py'', ''open example.com''])) \<noteq> []"
    by code_simp
  have r: "startup_raises calm_world [''agent.py'', ''open example.com'', ''many''] invalid_literal"
    by (simp add: startup_raises_def parse_many)
  have 1: "exit_status (fst (main crash_world [''agent.py'', ''open example.com''])) = 0"
    using exit_status_of_main [of crash_world "[''agent.py'', ''open example.com'']"] p by blast
  have 2: "exit_status (fst (main calm_world [''agent.py'', ''open example.com'', ''many''])) = 1"
    using exit_status_of_main [of calm_world "[''agent.py'', ''open example.com'', ''many'']"] r
    by blast
  from 1 2 show ?thesis by blast
qed

subsection \<open>main: reading the arguments\<close>

lemma last_dropWhile: "dropWhile P xs \<noteq> [] \<Longrightarrow> last (dropWhile P xs) = last xs"
  by (induction xs) (auto split: if_splits)

lemma py_strip_trimmed: "trimmed (py_strip s)"
proof -
  let ?u = "dropWhile is_space s"
  let ?v = "dropWhile is_space (rev ?u)"
  show ?thesis
  proof (cases "?v = []")
    case True
    then show ?thesis by (simp add: trimmed_def py_strip_def)
  next
    case False
    then have hv: "\<not> is_space (hd ?v)" by (rule hd_dropWhile)
    from False have "last ?v = last (rev ?u)" by (rule last_dropWhile)
    moreover from False have u: "?u \<noteq> []" by (auto dest: set_dropWhileD)
    ultimately have "last ?v = hd ?u" by (simp add: last_rev)
    moreover from u have "\<not> is_space (hd ?u)" by (rule hd_dropWhile)
    ultimately have lv: "\<not> is_space (last ?v)" by simp
    from False hv lv show ?thesis
      by (simp add: trimmed_def py_strip_def hd_rev last_rev)
  qed
qed

lemma sanitize_token_trimmed: "trimmed (sanitize_token t)"
  by (simp add: sanitize_token_def py_strip_trimmed)

lemma strip_flags_trimmed:
  "\<forall>t \<in> set toks. trimmed t \<Longrightarrow> \<forall>t \<in> set cleaned. trimmed t \<Longrightarrow>
   strip_flags toks (u, d, cleaned) = (u', d', cleaned') \<Longrightarrow> \<forall>t \<in> set cleaned'. trimmed t"
proof (induction toks arbitrary: u d cleaned)
  case Nil
  then show ?case by simp
next
  case (Cons token rest)
  from Cons.prems(3) show ?case
    by (simp add: Let_def split: if_splits)
       (erule Cons.IH [rotated 2]; use Cons.prems(1,2) in \<open>simp add: py_strip_trimmed\<close>)+
qed

lemma strip_flags_args_trimmed:
  "strip_flags (map sanitize_token raw_args) (False, False, []) = (u, d, cleaned) \<Longrightarrow>
   \<forall>t \<in> set cleaned. trimmed t"
  by (rule strip_flags_trimmed [of "map sanitize_token raw_args" "[]"])
     (simp_all add: sanitize_token_trimmed)

lemma py_in_set: "py_in pat s \<Longrightarrow> set pat \<subseteq> set s"
proof (induction s)
  case Nil
  then show ?case by simp
next
  case (Cons c cs)
  from Cons.prems have "startswith pat (c # cs) \<or> py_in pat cs" by simp
  then show ?case
  proof
    assume "startswith pat (c # cs)"
    then have "pat = take (length pat) (c # cs)" by (simp add: startswith_def)
    then have "set pat \<subseteq> set (c # cs)" by (metis set_take_subset)
    then show ?thesis .
  next
    assume "py_in pat cs"
    then show ?thesis using Cons.IH by auto
  qed
qed

lemma py_split_unfold:
  "py_split sep s =
     takeWhile (\<lambda>c. c \<noteq> sep) s #
       (case dropWhile (\<lambda>c. c \<noteq> sep) s of [] \<Rightarrow> [] | x # r \<Rightarrow> py_split sep r)"
  by (induction s) (auto split: list.splits)

lemma py_split_nonempty: "py_split sep s \<noteq> []"
  by (subst py_split_unfold) simp

lemma py_split_length: "sep \<in> set s \<Longrightarrow> 2 \<le> length (py_split sep s)"
proof -
  assume "sep \<in> set s"
  then have "dropWhile (\<lambda>c. c \<noteq> sep) s \<noteq> []" by (auto simp: dropWhile_eq_Nil_conv)
  then obtain x r where dw: "dropWhile (\<lambda>c. c \<noteq> sep) s = x # r"
    by (cases "dropWhile (\<lambda>c. c \<noteq> sep) s") auto
  have "py_split sep s =
          takeWhile (\<lambda>c. c \<noteq> sep) s #
            (case dropWhile (\<lambda>c. c \<noteq> sep) s of [] \<Rightarrow> [] | x # r \<Rightarrow> py_split sep r)"
    by (rule py_split_unfold)
  also have "\<dots> = takeWhile (\<lambda>c. c \<noteq> sep) s # py_split sep r"
    by (simp only: dw list.case)
  finally show ?thesis
    using py_split_nonempty [of sep r] by (cases "py_split sep r") auto
qed

lemma py_split_last: "s \<noteq> [] \<Longrightarrow> last s \<noteq> sep \<Longrightarrow> last (py_split sep s) \<noteq> []"
proof (induction s)
  case Nil
  then show ?case by simp
next
  case (Cons c cs)
  show ?case
  proof (cases "cs = []")
    case True
    with Cons.prems show ?thesis by simp
  next
    case False
    with Cons have "last (py_split sep cs) \<noteq> []" by simp
    then show ?thesis
      using py_split_nonempty [of sep cs] by (cases "py_split sep cs") (auto split: if_splits)
  qed
qed

lemma words_of_trimmed:
  assumes t: "trimmed a" and d: "py_in ''  '' a"
  defines "ws \<equiv> filter (\<lambda>p. p \<noteq> []) (py_split CHR '' '' a)"
  shows "2 \<le> length ws" and "hd ws = takeWhile (\<lambda>c. c \<noteq> CHR '' '') a" and "hd ws \<noteq> a"
proof -
  have sp: "CHR '' '' \<in> set a" using py_in_set [OF d] by simp
  then have ne: "a \<noteq> []" by auto
  have space: "is_space CHR '' ''" by (simp add: is_space_def)
  from t ne space have h: "hd a \<noteq> CHR '' ''" and l: "last a \<noteq> CHR '' ''"
    by (auto simp: trimmed_def)
  let ?p0 = "takeWhile (\<lambda>c. c \<noteq> CHR '' '') a"
  have "\<exists>rest. py_split CHR '' '' a = ?p0 # rest"
    by (subst py_split_unfold) simp
  then obtain rest where pieces: "py_split CHR '' '' a = ?p0 # rest" ..
  have p0: "?p0 \<noteq> []" using ne h by (cases a) auto
  have "2 \<le> length (py_split CHR '' '' a)" using sp by (rule py_split_length)
  then have rest: "rest \<noteq> []" using pieces by auto
  have "last (py_split CHR '' '' a) \<noteq> []" using ne l by (rule py_split_last)
  then have "last rest \<noteq> []" using pieces rest by simp
  moreover have "last rest \<in> set rest" using rest by simp
  ultimately have fr: "filter (\<lambda>p. p \<noteq> []) rest \<noteq> []"
    by (auto simp only: filter_empty_conv)
  have ws: "ws = ?p0 # filter (\<lambda>p. p \<noteq> []) rest"
    using pieces p0 by (simp add: ws_def)
  show "2 \<le> length ws" using ws fr by (cases "filter (\<lambda>p. p \<noteq> []) rest") auto
  show "hd ws = ?p0" using ws by simp
  have "CHR '' '' \<notin> set ?p0" by (auto dest: set_takeWhileD)
  then show "hd ws \<noteq> a" using ws sp by auto
qed

lemma resplit_single: "resplit [a] = (if py_in ''  '' a then words a else [a])"
  by (simp add: resplit_def words_def)

text \<open>
  C10. When exactly one token \<open>a\<close> is left after sanitising and flag stripping and it
  contains two consecutive spaces, the arguments become the non-empty pieces of
  \<open>a.split(' ')\<close>, of which there are at least two: the task is the first piece, that is
  \<open>a\<close> up to its first space and not \<open>a\<close> itself, \<open>max_steps\<close> is \<open>int\<close> of the second
  piece, and the third and fourth pieces, when present, are \<open>session_id\<close> and
  \<open>browser_context_id\<close>; when \<open>int\<close> rejects the second piece its exception leaves
  \<open>main\<close>. A single token without two consecutive spaces is the task as it is, with
  \<open>max_steps\<close> 10.
\<close>

theorem single_token_is_resplit:
  "strip_flags (map sanitize_token raw_args) (False, False, []) = (use_api, dh, [a]) \<longrightarrow>
     (py_in ''  '' a \<longrightarrow>
        2 \<le> length (words a) \<and>
        hd (words a) = takeWhile (\<lambda>c. c \<noteq> CHR '' '') a \<and>
        hd (words a) \<noteq> a \<and>
        parse_args ext raw_args =
          (case x_int ext (words a ! 1) of
             Inl e \<Rightarrow> Inl e
           | Inr n \<Rightarrow>
               Inr (Some \<lparr>arg_task = hd (words a),
                          arg_max_steps = n,
                          arg_session_id = (if 2 < length (words a) then Some (words a ! 2) else None),
                          arg_browser_context_id =
                            (if 3 < length (words a) then Some (words a ! 3) else None),
                          arg_use_api = use_api,
                          arg_disable_highlighting = dh\<rparr>)) \<and>
        (\<forall>e. x_int ext (words a ! 1) = Inl e \<longrightarrow> main ext (prog # raw_args) = (Uncaught e, []))) \<and>
     (\<not> py_in ''  '' a \<longrightarrow>
        parse_args ext raw_args =
          Inr (Some \<lparr>arg_task = a, arg_max_steps = 10, arg_session_id = None,
                     arg_browser_context_id = None, arg_use_api = use_api,
                     arg_disable_highlighting = dh\<rparr>))"
proof (intro impI conjI allI)
  assume sf: "strip_flags (map sanitize_token raw_args) (False, False, []) = (use_api, dh, [a])"
  {
    assume d: "\<not> py_in ''  '' a"
    show "parse_args ext raw_args =
          Inr (Some \<lparr>arg_task = a, arg_max_steps = 10, arg_session_id = None,
                     arg_browser_context_id = None, arg_use_api = use_api,
                     arg_disable_highlighting = dh\<rparr>)"
      using sf d by (simp add: parse_args_def resplit_single)
  }
  assume d: "py_in ''  '' a"
  have t: "trimmed a" using strip_flags_args_trimmed [OF sf] by simp
  note w = words_of_trimmed [OF t d, folded words_def]
  show "2 \<le> length (words a)" by (rule w(1))
  show "hd (words a) = takeWhile (\<lambda>c. c \<noteq> CHR '' '') a" by (rule w(2))
  show "hd (words a) \<noteq> a" by (rule w(3))
  obtain w0 w1 ws where ws: "words a = w0 # w1 # ws"
    using w(1) by (cases "words a"; cases "tl (words a)") auto
  show p: "parse_args ext raw_args =
          (case x_int ext (words a ! 1) of
             Inl e \<Rightarrow> Inl e
           | Inr n \<Rightarrow>
               Inr (Some \<lparr>arg_task = hd (words a),
                          arg_max_steps = n,
                          arg_session_id = (if 2 < length (words a) then Some (words a ! 2) else None),
                          arg_browser_context_id =
                            (if 3 < length (words a) then Some (words a ! 3) else None),
                          arg_use_api = use_api,
                          arg_disable_highlighting = dh\<rparr>))"
    using sf d ws by (simp add: parse_args_def resplit_single split: sum.splits)
  fix e
  assume e: "x_int ext (words a ! 1) = Inl e"
  have "raw_args \<noteq> []" using sf by auto
  then show "main ext (prog # raw_args) = (Uncaught e, [])"
    using p e by (cases raw_args) (simp_all add: main_def)
qed

theorem single_token_is_resplit_witness:
  "parse_args calm_world [''open  7  sess  ws://x''] =
     Inr (Some \<lparr>arg_task = ''open'', arg_max_steps = 7, arg_session_id = Some ''sess'',
                arg_browser_context_id = Some ''ws://x'', arg_use_api = False,
                arg_disable_highlighting = False\<rparr>) \<and>
   main calm_world [''agent.py'', ''go to  youtube''] = (Uncaught invalid_literal, []) \<and>
   parse_args calm_world [''go to youtube''] =
     Inr (Some \<lparr>arg_task = ''go to youtube'', arg_max_steps = 10, arg_session_id = None,
                arg_browser_context_id = None, arg_use_api = False,
                arg_disable_highlighting = False\<rparr>)"
proof -
  have int: "x_int calm_world = decimal_int" by (simp add: calm_world_def)
  have s1: "strip_flags (map sanitize_token [''open  7  sess  ws://x'']) (False, False, []) =
              (False, False, [''open  7  sess  ws://x''])"
    by code_simp
  have d1: "py_in ''  '' ''open  7  sess  ws://x''" by code_simp
  have w1: "words ''open  7  sess  ws://x'' = [''open'', ''7'', ''sess'', ''ws://x'']" by code_simp
  have i1: "decimal_int ''7'' = Inr 7" by code_simp
  have 1: "parse_args calm_world [''open  7  sess  ws://x''] =
     Inr (Some \<lparr>arg_task = ''open'', arg_max_steps = 7, arg_session_id = Some ''sess'',
                arg_browser_context_id = Some ''ws://x'', arg_use_api = False,
                arg_disable_highlighting = False\<rparr>)"
    using single_token_is_resplit [of "[''open  7  sess  ws://x'']" False False
        "''open  7  sess  ws://x''" calm_world "''agent.py''"] s1 d1
    by (simp add: w1 int i1 del: py_in.simps)
  have s2: "strip_flags (map sanitize_token [''go to  youtube'']) (False, False, []) =
              (False, False, [''go to  youtube''])"
    by code_simp
  have d2: "py_in ''  '' ''go to  youtube''" by code_simp
  have w2: "words ''go to  youtube'' = [''go'', ''to'', ''youtube'']" by code_simp
  have i2: "decimal_int ''to'' = Inl invalid_literal" by code_simp
  have 2: "main calm_world [''agent.py'', ''go to  youtube''] = (Uncaught invalid_literal, [])"
    using single_token_is_resplit [of "[''go to  youtube'']" False False
        "''go to  youtube''" calm_world "''agent.py''"] s2 d2
    by (simp add: w2 int i2 del: py_in.simps)
  have s3: "strip_flags (map sanitize_token [''go to youtube'']) (False, False, []) =
              (False, False, [''go to youtube''])"
    by code_simp
  have d3: "\<not> py_in ''  '' ''go to youtube''" by code_simp
  have 3: "parse_args calm_world [''go to youtube''] =
     Inr (Some \<lparr>arg_task = ''go to youtube'', arg_max_steps = 10, arg_session_id = None,
                arg_browser_context_id = None, arg_use_api = False,
                arg_disable_highlighting = False\<rparr>)"
    using single_token_is_resplit [of "[''go to youtube'']" False False
        "''go to youtube''" calm_world "''agent.py''"] s3 d3
    by (simp del: py_in.simps)
  from 1 2 3 show ?thesis by blast
qed

end
